theory Spec2Isabelle
  imports Main "HOL-Library.Word" "HOL-Library.Signed_Division"
begin

unbundle bit_operations_syntax

section \<open>Multi-click tracking of the window-hosted terminal (HwndTerminal.cpp)\<close>

text \<open>
  \<^verbatim>\<open>til::point\<close> and \<^verbatim>\<open>til::size\<close> hold two \<^verbatim>\<open>ptrdiff_t\<close> values each; the
  click positions come from the 16-bit halves of an \<^verbatim>\<open>LPARAM\<close>, so plain integers
  lose nothing. Time points and durations of \<^verbatim>\<open>std::chrono::steady_clock\<close> are
  integers in one common tick unit. The click counter is an \<^verbatim>\<open>unsigned int\<close>.
\<close>

type_synonym point = "int \<times> int"
type_synonym size2 = "int \<times> int"
type_synonym time_point = int
type_synonym uint = "32 word"

datatype SelectionExpansionMode = Cell | Word | Line

text \<open>The calls \<^verbatim>\<open>_StartSelection\<close> makes on the terminal and on the renderer.\<close>

datatype terminal_call =
    SetBlockSelection bool
  | MultiClickSelection point SelectionExpansionMode
  | ClearSelection
  | TriggerSelection

datatype start_result = S_OK_returned | Exception_caught

record hwnd_terminal =
  multiClickTime :: int
  multiClickCounter :: uint
  lastMouseClickTimestamp :: time_point
  lastMouseClickPos :: "point option"
  singleClickTouchdownPos :: "point option"

text \<open>
  The state the constructor leaves: a 500 ms interval (here in milliseconds), a zero
  counter, the clock's epoch and no stored positions.
\<close>

definition HwndTerminal_init :: hwnd_terminal where
  "HwndTerminal_init =
     \<lparr> multiClickTime = 500, multiClickCounter = 0, lastMouseClickTimestamp = 0,
       lastMouseClickPos = None, singleClickTouchdownPos = None \<rparr>"

text \<open>
  \<^verbatim>\<open>_NumberOfClicks\<close>: a click somewhere else than the stored position, or later than
  the interval after the stored time stamp, is click number one; any other click adds
  one to the counter (\<^verbatim>\<open>++\<close> on an \<^verbatim>\<open>unsigned int\<close>).
\<close>

definition NumberOfClicks :: "hwnd_terminal \<Rightarrow> point \<Rightarrow> time_point \<Rightarrow> uint \<times> hwnd_terminal" where
  "NumberOfClicks t pnt timestamp =
     (let delta = timestamp - lastMouseClickTimestamp t;
          t' = (if Some pnt \<noteq> lastMouseClickPos t \<or> delta > multiClickTime t
                then t\<lparr>multiClickCounter := 1\<rparr>
                else t\<lparr>multiClickCounter := multiClickCounter t + 1\<rparr>)
      in (multiClickCounter t', t'))"

definition MAX_CLICK_COUNT :: uint where
  "MAX_CLICK_COUNT = 3"

text \<open>The expression bound to \<^verbatim>\<open>multiClickMapper\<close>, in \<^verbatim>\<open>unsigned int\<close> arithmetic.\<close>

definition multiClickMapper :: "uint \<Rightarrow> uint" where
  "multiClickMapper clickCount =
     (if clickCount > MAX_CLICK_COUNT
      then ((clickCount + MAX_CLICK_COUNT - 1) mod MAX_CLICK_COUNT) + 1
      else clickCount)"

text \<open>
  \<^verbatim>\<open>_StartSelection\<close>. The inputs are the click position decoded from the
  \<^verbatim>\<open>LPARAM\<close>, the state of the ALT key, the font size, and the two readings of the
  clock the function takes (\<open>now1\<close> for \<^verbatim>\<open>_NumberOfClicks\<close>, \<open>now2\<close> for the stored
  time stamp). The operator of \<^verbatim>\<open>cursorPosition / fontSize\<close> is declared in
  \<^verbatim>\<open>til/point.h\<close>, which is not among the sources: it is the parameter \<open>quot\<close>,
  whose result is \<open>None\<close> when the operator throws. The result of the function is
  the returned status, the calls made in order, and the new state. An exception
  leaves through \<^verbatim>\<open>CATCH_RETURN\<close> after the counter was updated and before the
  renderer is triggered.
\<close>

definition StartSelection ::
  "(point \<Rightarrow> size2 \<Rightarrow> point option) \<Rightarrow> hwnd_terminal \<Rightarrow> point \<Rightarrow> bool \<Rightarrow> size2
     \<Rightarrow> time_point \<Rightarrow> time_point \<Rightarrow> start_result \<times> terminal_call list \<times> hwnd_terminal" where
  "StartSelection quot t cursorPosition altPressed fontSize now1 now2 =
     (let (clickCount, t1) = NumberOfClicks t cursorPosition now1;
          m = multiClickMapper clickCount
      in if m = 3 then
           (case quot cursorPosition fontSize of
              None \<Rightarrow> (Exception_caught, [SetBlockSelection altPressed], t1)
            | Some cell \<Rightarrow>
                (S_OK_returned,
                 [SetBlockSelection altPressed, MultiClickSelection cell Line, TriggerSelection],
                 t1))
         else if m = 2 then
           (case quot cursorPosition fontSize of
              None \<Rightarrow> (Exception_caught, [SetBlockSelection altPressed], t1)
            | Some cell \<Rightarrow>
                (S_OK_returned,
                 [SetBlockSelection altPressed, MultiClickSelection cell Word, TriggerSelection],
                 t1))
         else
           (S_OK_returned,
            [SetBlockSelection altPressed, ClearSelection, TriggerSelection],
            t1\<lparr> singleClickTouchdownPos := Some cursorPosition,
                lastMouseClickTimestamp := now2,
                lastMouseClickPos := Some cursorPosition \<rparr>))"

text \<open>
  A division to run concrete clicks with: each coordinate divided with truncation,
  and no result for a zero divisor.
\<close>

definition point_div :: "point \<Rightarrow> size2 \<Rightarrow> point option" where
  "point_div p sz =
     (if fst sz = 0 \<or> snd sz = 0 then None
      else Some (fst p sdiv fst sz, snd p sdiv snd sz))"

text \<open>
  What \<^verbatim>\<open>HwndTerminalWndProc\<close> does with the left button when the terminal does not
  send the mouse to the application: a press goes to \<^verbatim>\<open>_StartSelection\<close>, a release
  forgets the touch-down position. The press carries what \<^verbatim>\<open>_StartSelection\<close>
  reads: position, ALT key, font size and the two clock readings.
\<close>

datatype mouse_event =
    LButtonDown point bool size2 time_point time_point
  | LButtonUp

fun WndProc ::
  "(point \<Rightarrow> size2 \<Rightarrow> point option) \<Rightarrow> hwnd_terminal \<Rightarrow> mouse_event \<Rightarrow> hwnd_terminal" where
  "WndProc quot t (LButtonDown p alt fs n1 n2) = snd (snd (StartSelection quot t p alt fs n1 n2))"
| "WndProc quot t LButtonUp = t\<lparr> singleClickTouchdownPos := None \<rparr>"

text \<open>A run of clicks, each with its position and its two clock readings.\<close>

fun clicks ::
  "hwnd_terminal \<Rightarrow> bool \<Rightarrow> size2 \<Rightarrow> (point \<times> time_point \<times> time_point) list \<Rightarrow> hwnd_terminal" where
  "clicks t alt fs [] = t"
| "clicks t alt fs ((p, n1, n2) # cs) =
     clicks (snd (snd (StartSelection point_div t p alt fs n1 n2))) alt fs cs"

section \<open>The dispatcher of the terminal core (TerminalDispatch.cpp)\<close>

text \<open>
  \<^verbatim>\<open>TerminalDispatch\<close> forwards to an \<^verbatim>\<open>ITerminalApi\<close> whose implementation is not
  among the sources. The interface is a parameter: one function that, for each call
  and each state of the terminal, gives the returned flag and the next state. A call
  that throws inside a \<^verbatim>\<open>try\<close> of the dispatcher ends as \<open>False\<close> through
  \<^verbatim>\<open>CATCH_LOG_RETURN_FALSE\<close>, so it is a call whose flag is \<open>False\<close>.
\<close>

datatype EraseType = EraseToEnd | EraseFromBeginning | EraseAll | EraseScrollback

datatype api_call =
    ApiSetCursorPosition int int
  | ApiSetCursorVisibility bool
  | ApiEnableCursorBlinking bool
  | ApiEraseInDisplay EraseType
  | ApiSetKeypadMode bool
  | ApiSetCursorKeysMode bool
  | ApiSetScreenMode bool
  | ApiEnableWin32InputMode bool
  | ApiEnableVT200MouseMode bool
  | ApiEnableUTF8ExtendedMouseMode bool
  | ApiEnableSGRExtendedMouseMode bool
  | ApiEnableButtonEventMouseMode bool
  | ApiEnableAnyEventMouseMode bool
  | ApiEnableAlternateScrollMode bool

text \<open>
  \<^verbatim>\<open>SetGraphicsRendition\<close> lives in \<^verbatim>\<open>TerminalDispatchGraphics.cpp\<close>, which is not among
  the sources either; it is the second parameter, applied to the list of SGR options.
\<close>

record 's dispatch_env =
  terminalApi :: "api_call \<Rightarrow> 's \<Rightarrow> bool \<times> 's"
  SetGraphicsRendition :: "nat list \<Rightarrow> 's \<Rightarrow> bool \<times> 's"

definition SHORT_MAX :: int where
  "SHORT_MAX = 32767"

text \<open>
  \<^verbatim>\<open>CursorPosition\<close>: both arguments must fit a \<^verbatim>\<open>SHORT\<close>, then one is taken off
  each (never below \<^verbatim>\<open>SHORT_MIN\<close>, the values being non-negative).
\<close>

definition CursorPosition :: "'s dispatch_env \<Rightarrow> nat \<Rightarrow> nat \<Rightarrow> 's \<Rightarrow> bool \<times> 's" where
  "CursorPosition env line column s =
     (if int column \<le> SHORT_MAX \<and> int line \<le> SHORT_MAX
      then terminalApi env (ApiSetCursorPosition (int column - 1) (int line - 1)) s
      else (False, s))"

definition CursorVisibility :: "'s dispatch_env \<Rightarrow> bool \<Rightarrow> 's \<Rightarrow> bool \<times> 's" where
  "CursorVisibility env isVisible s = terminalApi env (ApiSetCursorVisibility isVisible) s"

definition EnableCursorBlinking :: "'s dispatch_env \<Rightarrow> bool \<Rightarrow> 's \<Rightarrow> bool \<times> 's" where
  "EnableCursorBlinking env enable s = terminalApi env (ApiEnableCursorBlinking enable) s"

definition EraseInDisplay :: "'s dispatch_env \<Rightarrow> EraseType \<Rightarrow> 's \<Rightarrow> bool \<times> 's" where
  "EraseInDisplay env eraseType s = terminalApi env (ApiEraseInDisplay eraseType) s"

text \<open>The setters below drop the flag of the interface call and return \<open>True\<close>.\<close>

definition SetKeypadMode :: "'s dispatch_env \<Rightarrow> bool \<Rightarrow> 's \<Rightarrow> bool \<times> 's" where
  "SetKeypadMode env fApplicationMode s =
     (True, snd (terminalApi env (ApiSetKeypadMode fApplicationMode) s))"

definition SetCursorKeysMode :: "'s dispatch_env \<Rightarrow> bool \<Rightarrow> 's \<Rightarrow> bool \<times> 's" where
  "SetCursorKeysMode env applicationMode s =
     (True, snd (terminalApi env (ApiSetCursorKeysMode applicationMode) s))"

definition SetScreenMode :: "'s dispatch_env \<Rightarrow> bool \<Rightarrow> 's \<Rightarrow> bool \<times> 's" where
  "SetScreenMode env reverseMode s = terminalApi env (ApiSetScreenMode reverseMode) s"

definition EnableWin32InputMode :: "'s dispatch_env \<Rightarrow> bool \<Rightarrow> 's \<Rightarrow> bool \<times> 's" where
  "EnableWin32InputMode env win32Mode s =
     (True, snd (terminalApi env (ApiEnableWin32InputMode win32Mode) s))"

definition EnableVT200MouseMode :: "'s dispatch_env \<Rightarrow> bool \<Rightarrow> 's \<Rightarrow> bool \<times> 's" where
  "EnableVT200MouseMode env enabled s =
     (True, snd (terminalApi env (ApiEnableVT200MouseMode enabled) s))"

definition EnableUTF8ExtendedMouseMode :: "'s dispatch_env \<Rightarrow> bool \<Rightarrow> 's \<Rightarrow> bool \<times> 's" where
  "EnableUTF8ExtendedMouseMode env enabled s =
     (True, snd (terminalApi env (ApiEnableUTF8ExtendedMouseMode enabled) s))"

definition EnableSGRExtendedMouseMode :: "'s dispatch_env \<Rightarrow> bool \<Rightarrow> 's \<Rightarrow> bool \<times> 's" where
  "EnableSGRExtendedMouseMode env enabled s =
     (True, snd (terminalApi env (ApiEnableSGRExtendedMouseMode enabled) s))"

definition EnableButtonEventMouseMode :: "'s dispatch_env \<Rightarrow> bool \<Rightarrow> 's \<Rightarrow> bool \<times> 's" where
  "EnableButtonEventMouseMode env enabled s =
     (True, snd (terminalApi env (ApiEnableButtonEventMouseMode enabled) s))"

definition EnableAnyEventMouseMode :: "'s dispatch_env \<Rightarrow> bool \<Rightarrow> 's \<Rightarrow> bool \<times> 's" where
  "EnableAnyEventMouseMode env enabled s =
     (True, snd (terminalApi env (ApiEnableAnyEventMouseMode enabled) s))"

definition EnableAlternateScroll :: "'s dispatch_env \<Rightarrow> bool \<Rightarrow> 's \<Rightarrow> bool \<times> 's" where
  "EnableAlternateScroll env enabled s =
     (True, snd (terminalApi env (ApiEnableAlternateScrollMode enabled) s))"

text \<open>
  The enumeration \<^verbatim>\<open>DispatchTypes::PrivateModeParams\<close> is declared in a header that is
  not among the sources. The eleven enumerators the \<^verbatim>\<open>switch\<close> names are a datatype,
  and the number each stands for is a parameter \<open>code\<close>; the argument of the helper
  is the mode number itself, which the parser may set to any value.
\<close>

datatype PrivateModeName =
    DECCKM_CursorKeysMode
  | DECSCNM_ScreenMode
  | VT200_MOUSE_MODE
  | BUTTON_EVENT_MOUSE_MODE
  | ANY_EVENT_MOUSE_MODE
  | UTF8_EXTENDED_MODE
  | SGR_EXTENDED_MODE
  | ALTERNATE_SCROLL
  | DECTCEM_TextCursorEnableMode
  | ATT610_StartCursorBlink
  | W32IM_Win32InputMode

definition PrivateModeParamsHelper ::
  "'s dispatch_env \<Rightarrow> (PrivateModeName \<Rightarrow> nat) \<Rightarrow> nat \<Rightarrow> bool \<Rightarrow> 's \<Rightarrow> bool \<times> 's" where
  "PrivateModeParamsHelper env code param enable s =
     (if param = code DECCKM_CursorKeysMode then SetCursorKeysMode env enable s
      else if param = code DECSCNM_ScreenMode then SetScreenMode env enable s
      else if param = code VT200_MOUSE_MODE then EnableVT200MouseMode env enable s
      else if param = code BUTTON_EVENT_MOUSE_MODE then EnableButtonEventMouseMode env enable s
      else if param = code ANY_EVENT_MOUSE_MODE then EnableAnyEventMouseMode env enable s
      else if param = code UTF8_EXTENDED_MODE then EnableUTF8ExtendedMouseMode env enable s
      else if param = code SGR_EXTENDED_MODE then EnableSGRExtendedMouseMode env enable s
      else if param = code ALTERNATE_SCROLL then EnableAlternateScroll env enable s
      else if param = code DECTCEM_TextCursorEnableMode then CursorVisibility env enable s
      else if param = code ATT610_StartCursorBlink then EnableCursorBlinking env enable s
      else if param = code W32IM_Win32InputMode then EnableWin32InputMode env enable s
      else (False, s))"

definition SetPrivateMode ::
  "'s dispatch_env \<Rightarrow> (PrivateModeName \<Rightarrow> nat) \<Rightarrow> nat \<Rightarrow> 's \<Rightarrow> bool \<times> 's" where
  "SetPrivateMode env code param s = PrivateModeParamsHelper env code param True s"

definition ResetPrivateMode ::
  "'s dispatch_env \<Rightarrow> (PrivateModeName \<Rightarrow> nat) \<Rightarrow> nat \<Rightarrow> 's \<Rightarrow> bool \<times> 's" where
  "ResetPrivateMode env code param s = PrivateModeParamsHelper env code param False s"

text \<open>
  The setter the claim pairs with each recognized mode, and the list of the numbers of
  the recognized modes under a numbering.
\<close>

fun mode_setter :: "'s dispatch_env \<Rightarrow> PrivateModeName \<Rightarrow> bool \<Rightarrow> 's \<Rightarrow> bool \<times> 's" where
  "mode_setter env DECCKM_CursorKeysMode = SetCursorKeysMode env"
| "mode_setter env DECSCNM_ScreenMode = SetScreenMode env"
| "mode_setter env VT200_MOUSE_MODE = EnableVT200MouseMode env"
| "mode_setter env BUTTON_EVENT_MOUSE_MODE = EnableButtonEventMouseMode env"
| "mode_setter env ANY_EVENT_MOUSE_MODE = EnableAnyEventMouseMode env"
| "mode_setter env UTF8_EXTENDED_MODE = EnableUTF8ExtendedMouseMode env"
| "mode_setter env SGR_EXTENDED_MODE = EnableSGRExtendedMouseMode env"
| "mode_setter env ALTERNATE_SCROLL = EnableAlternateScroll env"
| "mode_setter env DECTCEM_TextCursorEnableMode = CursorVisibility env"
| "mode_setter env ATT610_StartCursorBlink = EnableCursorBlinking env"
| "mode_setter env W32IM_Win32InputMode = EnableWin32InputMode env"

definition recognized_modes :: "PrivateModeName list" where
  "recognized_modes =
     [DECCKM_CursorKeysMode, DECSCNM_ScreenMode, VT200_MOUSE_MODE, BUTTON_EVENT_MOUSE_MODE,
      ANY_EVENT_MOUSE_MODE, UTF8_EXTENDED_MODE, SGR_EXTENDED_MODE, ALTERNATE_SCROLL,
      DECTCEM_TextCursorEnableMode, ATT610_StartCursorBlink, W32IM_Win32InputMode]"

text \<open>
  The numbers of the DEC and xterm private modes, as the comments of
  \<^verbatim>\<open>TerminalDispatch.hpp\<close> give them for the mouse modes (\<^verbatim>\<open>?1000\<close> to \<^verbatim>\<open>?1007\<close>);
  used to run the helper on concrete mode numbers.
\<close>

fun private_mode_number :: "PrivateModeName \<Rightarrow> nat" where
  "private_mode_number DECCKM_CursorKeysMode = 1"
| "private_mode_number DECSCNM_ScreenMode = 5"
| "private_mode_number ATT610_StartCursorBlink = 12"
| "private_mode_number DECTCEM_TextCursorEnableMode = 25"
| "private_mode_number VT200_MOUSE_MODE = 1000"
| "private_mode_number BUTTON_EVENT_MOUSE_MODE = 1002"
| "private_mode_number ANY_EVENT_MOUSE_MODE = 1003"
| "private_mode_number UTF8_EXTENDED_MODE = 1005"
| "private_mode_number SGR_EXTENDED_MODE = 1006"
| "private_mode_number ALTERNATE_SCROLL = 1007"
| "private_mode_number W32IM_Win32InputMode = 9001"

text \<open>
  \<^verbatim>\<open>SoftReset\<close> and \<^verbatim>\<open>HardReset\<close>. Each statement
  \<^verbatim>\<open>success = Op() && success\<close> runs the operation first and then combines its flag
  with the flag so far; no operation is skipped.
\<close>

definition SoftReset :: "'s dispatch_env \<Rightarrow> 's \<Rightarrow> bool \<times> 's" where
  "SoftReset env s0 =
     (let (success1, s1) = CursorVisibility env True s0;
          (r2, s2) = SetCursorKeysMode env False s1;
          success2 = (r2 \<and> success1);
          (r3, s3) = SetKeypadMode env False s2;
          success3 = (r3 \<and> success2);
          (r4, s4) = SetGraphicsRendition env [] s3;
          success4 = (r4 \<and> success3)
      in (success4, s4))"

definition HardReset :: "'s dispatch_env \<Rightarrow> 's \<Rightarrow> bool \<times> 's" where
  "HardReset env s0 =
     (let success0 = True;
          (r1, s1) = SoftReset env s0;
          success1 = (r1 \<and> success0);
          (r2, s2) = EraseInDisplay env EraseAll s1;
          success2 = (r2 \<and> success1);
          (r3, s3) = EraseInDisplay env EraseScrollback s2;
          success3 = (r3 \<and> success2);
          (r4, s4) = SetScreenMode env False s3;
          success4 = (r4 \<and> success3);
          (r5, s5) = CursorPosition env 1 1 s4;
          success5 = (r5 \<and> success4)
      in (success5, s5))"

text \<open>
  A terminal that only records the calls it receives, answering each from a table of
  outcomes \<open>ok\<close> that may depend on the calls made so far. A call of
  \<^verbatim>\<open>SetGraphicsRendition\<close> is recorded with its options.
\<close>

datatype logged = Api api_call | Sgr "nat list"

definition logging_env :: "(logged list \<Rightarrow> logged \<Rightarrow> bool) \<Rightarrow> (logged list) dispatch_env" where
  "logging_env ok =
     \<lparr> terminalApi = (\<lambda>c log. (ok log (Api c), log @ [Api c])),
       SetGraphicsRendition = (\<lambda>opts log. (ok log (Sgr opts), log @ [Sgr opts])) \<rparr>"

section \<open>The console host's API routines (getset.cpp)\<close>

text \<open>
  \<^verbatim>\<open>COORD\<close> and \<^verbatim>\<open>SMALL_RECT\<close> hold \<^verbatim>\<open>SHORT\<close> values. They are integers here;
  \<open>to_short\<close> is the narrowing of an \<^verbatim>\<open>int\<close> result that is stored back into a
  \<^verbatim>\<open>SHORT\<close>. Rectangles are inclusive on all four sides.
\<close>

record coord =
  X :: int
  Y :: int

record small_rect =
  Left :: int
  Top :: int
  Right :: int
  Bottom :: int

definition to_short :: "int \<Rightarrow> int" where
  "to_short i = (i + 32768) mod 65536 - 32768"

text \<open>
  \<^verbatim>\<open>HRESULT\<close> and \<^verbatim>\<open>NTSTATUS\<close> are signed 32-bit codes; a negative one is a failure.
\<close>

type_synonym hresult = int
type_synonym ntstatus = int

definition S_OK :: hresult where
  "S_OK = 0"

definition E_INVALIDARG :: hresult where
  "E_INVALIDARG = - 2147024809"

definition STATUS_SUCCESS :: ntstatus where
  "STATUS_SUCCESS = 0"

definition FAILED :: "hresult \<Rightarrow> bool" where
  "FAILED hr = (hr < 0)"

definition NT_SUCCESS :: "ntstatus \<Rightarrow> bool" where
  "NT_SUCCESS st = (0 \<le> st)"

text \<open>
  What the routines read of the console: the active screen buffer's dimensions,
  viewports, cursor and margins, and the global colour table and flags. The cells of
  the buffer are a field of any type. The margins are the absolute top and bottom rows
  when \<^verbatim>\<open>AreMarginsSet\<close> holds.
\<close>

record 'b console =
  bufferSize :: coord
  viewport :: small_rect
  virtualViewport :: small_rect
  cursorPosition :: coord
  scrollMargins :: "(int \<times> int) option"
  colorTable :: "nat \<Rightarrow> 32 word"
  terminalScrolling :: bool
  headless :: bool
  vtIoMode :: bool
  rendererPresent :: bool
  contents :: 'b

text \<open>
  The functions the routines call that are defined outside \<^verbatim>\<open>getset.cpp\<close>, in files
  that are not among the sources. Each is a parameter that may change the console in
  any way and return any code; a callee that throws is one whose code is the failure
  \<^verbatim>\<open>CATCH_RETURN\<close> makes of the exception.
\<close>

record 'b host_env =
  VtIo_SetCursorPosition :: "coord \<Rightarrow> 'b console \<Rightarrow> hresult \<times> 'b console"
  Buffer_SetCursorPosition :: "coord \<Rightarrow> bool \<Rightarrow> 'b console \<Rightarrow> ntstatus \<times> 'b console"
  ConsoleImeResizeCompStrView :: "'b console \<Rightarrow> hresult \<times> 'b console"
  SetViewportOrigin :: "bool \<Rightarrow> coord \<Rightarrow> bool \<Rightarrow> 'b console \<Rightarrow> ntstatus \<times> 'b console"
  GetMinWindowSizeInCharacters :: "'b console \<Rightarrow> coord"
  ResizeScreenBuffer :: "coord \<Rightarrow> bool \<Rightarrow> 'b console \<Rightarrow> ntstatus \<times> 'b console"
  AdjustCursorPosition :: "coord \<Rightarrow> bool \<Rightarrow> 'b console \<Rightarrow> ntstatus \<times> 'b console"
  ScrollRegion ::
    "small_rect \<Rightarrow> small_rect option \<Rightarrow> coord \<Rightarrow> bool \<Rightarrow> 'b console \<Rightarrow> hresult \<times> 'b console"
  Xterm256ToWindowsIndex :: "nat \<Rightarrow> nat"
  TriggerRedrawAll :: "'b console \<Rightarrow> 'b console"
  HRESULT_FROM_NT :: "ntstatus \<Rightarrow> hresult"
  NTSTATUS_FROM_HRESULT :: "hresult \<Rightarrow> ntstatus"

text \<open>
  Modelled from the spec: \<^verbatim>\<open>Viewport::Width\<close>, whose file is not among the sources.
  The viewport is a sub-rectangle of the buffer; its width is counted from its
  inclusive left and right columns.
\<close>

definition viewport_Width :: "'b console \<Rightarrow> int" where
  "viewport_Width c = Right (viewport c) - Left (viewport c) + 1"

text \<open>
  Modelled from the spec: \<^verbatim>\<open>Viewport::Height\<close>, as the width above, from the top
  and bottom rows of the viewport.
\<close>

definition viewport_Height :: "'b console \<Rightarrow> int" where
  "viewport_Height c = Bottom (viewport c) - Top (viewport c) + 1"

definition SetConsoleScreenBufferSizeImpl ::
  "'b host_env \<Rightarrow> 'b console \<Rightarrow> coord \<Rightarrow> hresult \<times> 'b console" where
  "SetConsoleScreenBufferSizeImpl env c sz =
     (if X sz < viewport_Width c \<or> Y sz < viewport_Height c then (E_INVALIDARG, c)
      else if \<not> headless c \<and>
              (Y sz < Y (GetMinWindowSizeInCharacters env c) \<or>
               X sz < X (GetMinWindowSizeInCharacters env c)) then (E_INVALIDARG, c)
      else if X sz = SHORT_MAX \<or> Y sz = SHORT_MAX then (E_INVALIDARG, c)
      else if X sz \<noteq> X (bufferSize c) \<or> Y sz \<noteq> Y (bufferSize c) then
        (let (st, c') = ResizeScreenBuffer env sz True c
         in (if NT_SUCCESS st then S_OK else HRESULT_FROM_NT env st, c'))
      else (S_OK, c))"

definition SetConsoleCursorPositionImpl ::
  "'b host_env \<Rightarrow> 'b console \<Rightarrow> coord \<Rightarrow> hresult \<times> 'b console" where
  "SetConsoleCursorPositionImpl env c position =
     (let coordScreenBufferSize = bufferSize c
      in if X position \<ge> X coordScreenBufferSize \<or> Y position \<ge> Y coordScreenBufferSize \<or>
            X position < 0 \<or> Y position < 0
         then (E_INVALIDARG, c)
         else
           (let (hr1, c1) = VtIo_SetCursorPosition env position c
            in if FAILED hr1 then (hr1, c1)
               else
                 (let (st2, c2) = Buffer_SetCursorPosition env position True c1
                  in if \<not> NT_SUCCESS st2 then (HRESULT_FROM_NT env st2, c2)
                     else
                       (let (hr3, c3) = ConsoleImeResizeCompStrView env c2;
                            currentViewport =
                              (if terminalScrolling c3 then virtualViewport c3 else viewport c3);
                            deltaX =
                              (if Left currentViewport > X position
                               then to_short (X position - Left currentViewport)
                               else if Right currentViewport < X position
                               then to_short (X position - Right currentViewport)
                               else 0);
                            deltaY =
                              (if Top currentViewport > Y position
                               then to_short (Y position - Top currentViewport)
                               else if Bottom currentViewport < Y position
                               then to_short (Y position - Bottom currentViewport)
                               else 0);
                            newWindowOrigin =
                              \<lparr> X = to_short (Left currentViewport + deltaX),
                                Y = to_short (Top currentViewport + deltaY) \<rparr>;
                            (st4, c4) = SetViewportOrigin env True newWindowOrigin True c3
                        in if \<not> NT_SUCCESS st4 then (HRESULT_FROM_NT env st4, c4)
                           else (S_OK, c4)))))"

text \<open>
  \<^verbatim>\<open>DoSrvPrivateSetColorTableEntry\<close>. The index is a \<^verbatim>\<open>size_t\<close>; the table of the
  console is written at the translated index.
\<close>

definition DoSrvPrivateSetColorTableEntry ::
  "'b host_env \<Rightarrow> 'b console \<Rightarrow> nat \<Rightarrow> 32 word \<Rightarrow> hresult \<times> 'b console" where
  "DoSrvPrivateSetColorTableEntry env c index v =
     (if index \<ge> 256 then (E_INVALIDARG, c)
      else
        (let c1 = c\<lparr> colorTable := (colorTable c)(Xterm256ToWindowsIndex env index := v) \<rparr>;
             c2 = (if rendererPresent c1 \<and> \<not> vtIoMode c1 then TriggerRedrawAll env c1 else c1)
         in (S_OK, c2)))"

text \<open>
  Modelled from the spec: \<^verbatim>\<open>SCREEN_INFORMATION::AreMarginsSet\<close>, whose file is not
  among the sources. The buffer has an optional pair of scroll margins, top and
  bottom; they are set when the pair is there.
\<close>

definition AreMarginsSet :: "'b console \<Rightarrow> bool" where
  "AreMarginsSet c = (scrollMargins c \<noteq> None)"

text \<open>
  Modelled from the spec: \<^verbatim>\<open>SCREEN_INFORMATION::IsCursorInMargins\<close>, whose file is not
  among the sources. By the comment at its call in \<^verbatim>\<open>DoSrvPrivateReverseLineFeed\<close>
  the cursor counts as inside when there are no margins, or when its row lies within
  the margins.
\<close>

definition IsCursorInMargins :: "'b console \<Rightarrow> coord \<Rightarrow> bool" where
  "IsCursorInMargins c cursorPos =
     (case scrollMargins c of
        None \<Rightarrow> True
      | Some (mtop, mbottom) \<Rightarrow> mtop \<le> Y cursorPos \<and> Y cursorPos \<le> mbottom)"

text \<open>
  Modelled from the spec: the bottom row of \<^verbatim>\<open>GetAbsoluteScrollMargins\<close>, whose file
  is not among the sources: the second of the pair of margins (\<open>dflt\<close> without one).
\<close>

definition margins_BottomInclusive :: "'b console \<Rightarrow> int \<Rightarrow> int" where
  "margins_BottomInclusive c dflt =
     (case scrollMargins c of None \<Rightarrow> dflt | Some (mtop, mbottom) \<Rightarrow> mbottom)"

definition DoSrvPrivateScrollRegion ::
  "'b host_env \<Rightarrow> 'b console \<Rightarrow> small_rect \<Rightarrow> small_rect option \<Rightarrow> coord \<Rightarrow> bool
     \<Rightarrow> hresult \<times> 'b console" where
  "DoSrvPrivateScrollRegion env c scrollRect clipRect destinationOrigin standardFillAttrs =
     ScrollRegion env scrollRect clipRect destinationOrigin standardFillAttrs c"

definition DoSrvPrivateReverseLineFeed :: "'b host_env \<Rightarrow> 'b console \<Rightarrow> ntstatus \<times> 'b console" where
  "DoSrvPrivateReverseLineFeed env c =
     (let vp = viewport c;
          oldCursorPosition = cursorPosition c;
          newCursorPosition = \<lparr> X = X oldCursorPosition, Y = to_short (Y oldCursorPosition - 1) \<rparr>
      in if Y oldCursorPosition > Top vp
         then AdjustCursorPosition env newCursorPosition True c
         else if IsCursorInMargins c oldCursorPosition
         then
           (let srScroll =
                  \<lparr> Left = 0, Top = Top vp, Right = SHORT_MAX,
                    Bottom = (if AreMarginsSet c then margins_BottomInclusive c (Bottom vp)
                              else Bottom vp) \<rparr>;
                coordDestination = \<lparr> X = 0, Y = to_short (Top vp + 1) \<rparr>;
                (hr, c') = DoSrvPrivateScrollRegion env c srScroll (Some srScroll) coordDestination True
            in (NTSTATUS_FROM_HRESULT env hr, c'))
         else (STATUS_SUCCESS, c))"

text \<open>
  A set of callees for running the routines on concrete consoles: every one succeeds;
  the cursor setters and the resize store their argument, the others leave the
  console as it is.
\<close>

definition plain_env :: "'b host_env" where
  "plain_env =
     \<lparr> VtIo_SetCursorPosition = (\<lambda>p c. (0, c)),
       Buffer_SetCursorPosition = (\<lambda>p t c. (0, c\<lparr> cursorPosition := p \<rparr>)),
       ConsoleImeResizeCompStrView = (\<lambda>c. (0, c)),
       SetViewportOrigin = (\<lambda>a p u c. (0, c)),
       GetMinWindowSizeInCharacters = (\<lambda>c. \<lparr> X = 1, Y = 1 \<rparr>),
       ResizeScreenBuffer = (\<lambda>p t c. (0, c\<lparr> bufferSize := p \<rparr>)),
       AdjustCursorPosition = (\<lambda>p k c. (0, c\<lparr> cursorPosition := p \<rparr>)),
       ScrollRegion = (\<lambda>r cl d f c. (0, c)),
       Xterm256ToWindowsIndex = (\<lambda>i. i),
       TriggerRedrawAll = (\<lambda>c. c),
       HRESULT_FROM_NT = (\<lambda>st. st),
       NTSTATUS_FROM_HRESULT = (\<lambda>hr. hr) \<rparr>"

text \<open>An 80 by 25 console whose viewport is the whole buffer.\<close>

definition console_80x25 :: "unit console" where
  "console_80x25 =
     \<lparr> bufferSize = \<lparr> X = 80, Y = 25 \<rparr>,
       viewport = \<lparr> Left = 0, Top = 0, Right = 79, Bottom = 24 \<rparr>,
       virtualViewport = \<lparr> Left = 0, Top = 0, Right = 79, Bottom = 24 \<rparr>,
       cursorPosition = \<lparr> X = 0, Y = 0 \<rparr>,
       scrollMargins = None,
       colorTable = (\<lambda>i. 0),
       terminalScrolling = False,
       headless = False,
       vtIoMode = False,
       rendererPresent = True,
       contents = () \<rparr>"

section \<open>The selection of the console host (selection.cpp)\<close>

text \<open>
  The members of \<^verbatim>\<open>Selection\<close> that the functions below read or write, and two
  globals they read: the \<^verbatim>\<open>CONSOLE_SELECTING\<close> bit of the console's flags, which
  \<^verbatim>\<open>_SetSelectingState\<close> writes and \<^verbatim>\<open>IsInSelectingState\<close> reads, and whether the
  global \<^verbatim>\<open>pRender\<close> is set (not \<^verbatim>\<open>nullptr\<close>).
\<close>

record selection =
  fSelectionVisible :: bool
  dwSelectionFlags :: "32 word"
  fLineSelection :: bool
  fUseAlternateSelection :: bool
  allowMouseDragSelection :: bool
  srSelectionRect :: small_rect
  coordSelectionAnchor :: coord
  consoleSelecting :: bool
  pRenderSet :: bool

text \<open>
  The constructor; the console is not selecting when it starts, and it has a renderer.
\<close>

definition Selection_init :: selection where
  "Selection_init =
     \<lparr> fSelectionVisible = False, dwSelectionFlags = 0, fLineSelection = True,
       fUseAlternateSelection = False, allowMouseDragSelection = True,
       srSelectionRect = \<lparr> Left = 0, Top = 0, Right = 0, Bottom = 0 \<rparr>,
       coordSelectionAnchor = \<lparr> X = 0, Y = 0 \<rparr>,
       consoleSelecting = False, pRenderSet = True \<rparr>"

text \<open>The selection flags of \<^verbatim>\<open>wincon.h\<close>.\<close>

definition CONSOLE_SELECTION_NOT_EMPTY :: "32 word" where
  "CONSOLE_SELECTION_NOT_EMPTY = 2"

definition CONSOLE_MOUSE_SELECTION :: "32 word" where
  "CONSOLE_MOUSE_SELECTION = 4"

text \<open>
  Modelled from the spec: \<^verbatim>\<open>Selection::IsInSelectingState\<close>, defined like the three
  queries after it in \<^verbatim>\<open>selectionState.cpp\<close>, which is not among the sources. The
  selection is in the selecting state from its start to its clearing.
\<close>

definition IsInSelectingState :: "selection \<Rightarrow> bool" where
  "IsInSelectingState s = consoleSelecting s"

text \<open>
  Modelled from the spec: \<^verbatim>\<open>Selection::IsAreaSelected\<close>. It tests the flag that
  \<^verbatim>\<open>InitializeMouseSelection\<close> sets with the first point and \<^verbatim>\<open>ExtendSelection\<close>
  sets when it extends a selection that has no area yet.
\<close>

definition IsAreaSelected :: "selection \<Rightarrow> bool" where
  "IsAreaSelected s = (dwSelectionFlags s AND CONSOLE_SELECTION_NOT_EMPTY \<noteq> 0)"

text \<open>
  Modelled from the spec: \<^verbatim>\<open>Selection::IsMouseInitiatedSelection\<close>. It tests the
  flag that \<^verbatim>\<open>InitializeMouseSelection\<close> sets.
\<close>

definition IsMouseInitiatedSelection :: "selection \<Rightarrow> bool" where
  "IsMouseInitiatedSelection s = (dwSelectionFlags s AND CONSOLE_MOUSE_SELECTION \<noteq> 0)"

text \<open>
  Modelled from the spec: \<^verbatim>\<open>Selection::IsLineSelection\<close>. The mode is the line or
  block setting unless the modifier key asks for the other one (by the comment in
  \<^verbatim>\<open>InitializeMouseSelection\<close>: in box mode use line mode, in line mode use box
  mode).
\<close>

definition IsLineSelection :: "selection \<Rightarrow> bool" where
  "IsLineSelection s = (fLineSelection s \<noteq> fUseAlternateSelection s)"

text \<open>What the selection asks of the screen, the renderer and the accessibility layer.\<close>

datatype selection_call =
    ClearScroll
  | MakeCursorVisible coord
  | RenderTriggerSelection
  | UpdateWindowText
  | SignalUia
  | NotifyCaret coord

text \<open>\<^verbatim>\<open>_PaintSelection\<close> triggers the renderer only when there is one.\<close>

definition PaintSelection :: "selection \<Rightarrow> selection_call list" where
  "PaintSelection s = (if pRenderSet s then [RenderTriggerSelection] else [])"

definition SetSelectionVisibility :: "bool \<Rightarrow> selection \<Rightarrow> selection_call list \<times> selection" where
  "SetSelectionVisibility fMakeVisible s =
     (if IsInSelectingState s \<and> IsAreaSelected s then
        (if fMakeVisible = fSelectionVisible s then ([], s)
         else (PaintSelection (s\<lparr> fSelectionVisible := fMakeVisible \<rparr>) @ [SignalUia],
               s\<lparr> fSelectionVisible := fMakeVisible \<rparr>))
      else ([SignalUia], s))"

definition ShowSelection :: "selection \<Rightarrow> selection_call list \<times> selection" where
  "ShowSelection s = SetSelectionVisibility True s"

definition HideSelection :: "selection \<Rightarrow> selection_call list \<times> selection" where
  "HideSelection s = SetSelectionVisibility False s"

text \<open>
  \<^verbatim>\<open>InitializeMouseSelection\<close>; \<open>altPressed\<close> is what
  \<^verbatim>\<open>CheckAndSetAlternateSelection\<close> reads from the keyboard, and the console
  window exists, so that its title is updated and the accessibility event is raised.
\<close>

definition InitializeMouseSelection ::
  "selection \<Rightarrow> coord \<Rightarrow> bool \<Rightarrow> selection_call list \<times> selection" where
  "InitializeMouseSelection s coordBufferPos altPressed =
     ([ClearScroll, UpdateWindowText, SignalUia, NotifyCaret coordBufferPos],
      s\<lparr> consoleSelecting := True,
         dwSelectionFlags := CONSOLE_MOUSE_SELECTION OR CONSOLE_SELECTION_NOT_EMPTY,
         coordSelectionAnchor := coordBufferPos,
         srSelectionRect :=
           \<lparr> Left = X coordBufferPos, Top = Y coordBufferPos,
             Right = X coordBufferPos, Bottom = Y coordBufferPos \<rparr>,
         fUseAlternateSelection := altPressed \<rparr>)"

text \<open>
  Modelled from the spec: \<^verbatim>\<open>Viewport::Clamp\<close>, whose file is not among the sources.
  It clamps the position to the bounds of the buffer (by the comment at its call, not
  less than the first and not greater than the last row and column); with empty
  bounds there is nothing to clamp to and it throws.
\<close>

definition Clamp :: "small_rect \<Rightarrow> coord \<Rightarrow> coord option" where
  "Clamp bounds pos =
     (if Right bounds < Left bounds \<or> Bottom bounds < Top bounds then None
      else Some \<lparr> X = max (Left bounds) (min (Right bounds) (X pos)),
                  Y = max (Top bounds) (min (Bottom bounds) (Y pos)) \<rparr>)"

text \<open>
  \<^verbatim>\<open>ExtendSelection\<close>; \<open>bounds\<close> is the result of \<^verbatim>\<open>GetTerminalBufferSize\<close>.
\<close>

definition ExtendSelection ::
  "small_rect \<Rightarrow> selection \<Rightarrow> coord \<Rightarrow> selection_call list \<times> selection" where
  "ExtendSelection bounds s0 pos0 =
     (let s1 = s0\<lparr> allowMouseDragSelection := True \<rparr>
      in case Clamp bounds pos0 of
           None \<Rightarrow> ([], s1)
         | Some coordBufferPos \<Rightarrow>
             if \<not> IsAreaSelected s1 \<and> IsMouseInitiatedSelection s1 then ([], s1)
             else
               (let (calls2, s2) =
                      (if \<not> IsAreaSelected s1 then
                         (let anchor = coordSelectionAnchor s1;
                              s' = s1\<lparr> dwSelectionFlags :=
                                         dwSelectionFlags s1 OR CONSOLE_SELECTION_NOT_EMPTY,
                                       srSelectionRect :=
                                         \<lparr> Left = X anchor, Top = Y anchor,
                                           Right = X anchor, Bottom = Y anchor \<rparr> \<rparr>;
                              (cs, s'') = ShowSelection s'
                          in (MakeCursorVisible coordBufferPos # cs, s''))
                       else ([MakeCursorVisible coordBufferPos], s1));
                    anchor = coordSelectionAnchor s2;
                    sr0 = srSelectionRect s2;
                    sr1 = (if X coordBufferPos \<le> X anchor
                           then sr0\<lparr> Left := X coordBufferPos, Right := X anchor \<rparr>
                           else if X coordBufferPos > X anchor
                           then sr0\<lparr> Right := X coordBufferPos, Left := X anchor \<rparr>
                           else sr0);
                    srNewSelection =
                          (if Y coordBufferPos \<le> Y anchor
                           then sr1\<lparr> Top := Y coordBufferPos, Bottom := Y anchor \<rparr>
                           else if Y coordBufferPos > Y anchor
                           then sr1\<lparr> Bottom := Y coordBufferPos, Top := Y anchor \<rparr>
                           else sr1)
                in (calls2 @ PaintSelection (s2\<lparr> srSelectionRect := srNewSelection \<rparr>) @
                      [NotifyCaret coordBufferPos, SignalUia],
                    s2\<lparr> srSelectionRect := srNewSelection \<rparr>)))"

text \<open>
  Modelled from the spec: \<^verbatim>\<open>TextBuffer::GetTextRects\<close>, whose file is not among the
  sources. Given two buffer coordinates it produces one inclusive rectangle per row
  of the span between them; in line mode the first and last rows span partial columns
  and the rows between span the full width; in block mode every row spans the columns
  from the smaller to the larger \<open>X\<close>. \<open>rightmost\<close> is the last column of the buffer.
\<close>

definition GetTextRects :: "int \<Rightarrow> coord \<Rightarrow> coord \<Rightarrow> bool \<Rightarrow> small_rect list" where
  "GetTextRects rightmost start end blockSelection =
     (let (higherCoord, lowerCoord) =
            (if Y start < Y end \<or> (Y start = Y end \<and> X start \<le> X end)
             then (start, end) else (end, start))
      in map (\<lambda>row.
                if blockSelection
                then \<lparr> Left = min (X higherCoord) (X lowerCoord), Top = row,
                       Right = max (X higherCoord) (X lowerCoord), Bottom = row \<rparr>
                else \<lparr> Left = (if row = Y higherCoord then X higherCoord else 0), Top = row,
                       Right = (if row = Y lowerCoord then X lowerCoord else rightmost),
                       Bottom = row \<rparr>)
             [Y higherCoord .. Y lowerCoord])"

text \<open>
  \<^verbatim>\<open>GetSelectionRects\<close>, over the last column of the active buffer. The corner
  opposite to the anchor is the local \<^verbatim>\<open>endSelectionAnchor\<close>.
\<close>

definition endSelectionAnchor :: "selection \<Rightarrow> coord" where
  "endSelectionAnchor s =
     \<lparr> X = (if X (coordSelectionAnchor s) = Left (srSelectionRect s)
            then Right (srSelectionRect s) else Left (srSelectionRect s)),
       Y = (if Y (coordSelectionAnchor s) = Top (srSelectionRect s)
            then Bottom (srSelectionRect s) else Top (srSelectionRect s)) \<rparr>"

definition GetSelectionRects :: "int \<Rightarrow> selection \<Rightarrow> small_rect list" where
  "GetSelectionRects rightmost s =
     (if \<not> fSelectionVisible s then []
      else
        (let blockSelection = \<not> IsLineSelection s
         in GetTextRects rightmost (coordSelectionAnchor s) (endSelectionAnchor s) blockSelection))"

text \<open>
  The state the selection functions keep between calls: the anchor is a corner of a
  rectangle whose sides are in order.
\<close>

definition anchored :: "selection \<Rightarrow> bool" where
  "anchored s =
     (Left (srSelectionRect s) \<le> Right (srSelectionRect s) \<and>
      Top (srSelectionRect s) \<le> Bottom (srSelectionRect s) \<and>
      (X (coordSelectionAnchor s) = Left (srSelectionRect s) \<or>
       X (coordSelectionAnchor s) = Right (srSelectionRect s)) \<and>
      (Y (coordSelectionAnchor s) = Top (srSelectionRect s) \<or>
       Y (coordSelectionAnchor s) = Bottom (srSelectionRect s)))"

section \<open>Text colours (TextColor.h)\<close>

text \<open>
  The header gives the tags, the packed members and the three constructors; the index
  shares its byte with the red component. \<^verbatim>\<open>COLORREF\<close> is a 32-bit value
  \<^verbatim>\<open>0x00BBGGRR\<close>, taken apart and put together by the macros of \<^verbatim>\<open>wingdi.h\<close>.
\<close>

datatype ColorType = IsIndex256 | IsIndex16 | IsDefault | IsRgb

record TextColor =
  meta :: ColorType
  red :: "8 word"
  green :: "8 word"
  blue :: "8 word"

definition GetRValue :: "32 word \<Rightarrow> 8 word" where
  "GetRValue rgb = ucast rgb"

definition GetGValue :: "32 word \<Rightarrow> 8 word" where
  "GetGValue rgb = ucast (drop_bit 8 (ucast rgb :: 16 word))"

definition GetBValue :: "32 word \<Rightarrow> 8 word" where
  "GetBValue rgb = ucast (drop_bit 16 rgb)"

definition RGB :: "8 word \<Rightarrow> 8 word \<Rightarrow> 8 word \<Rightarrow> 32 word" where
  "RGB r g b = ucast r OR push_bit 8 (ucast g) OR push_bit 16 (ucast b)"

definition TextColor_default :: TextColor where
  "TextColor_default = \<lparr> meta = IsDefault, red = 0, green = 0, blue = 0 \<rparr>"

definition TextColor_index :: "8 word \<Rightarrow> bool \<Rightarrow> TextColor" where
  "TextColor_index index isIndex256 =
     \<lparr> meta = (if isIndex256 then IsIndex256 else IsIndex16), red = index, green = 0, blue = 0 \<rparr>"

definition TextColor_rgb :: "32 word \<Rightarrow> TextColor" where
  "TextColor_rgb rgb =
     \<lparr> meta = IsRgb, red = GetRValue rgb, green = GetGValue rgb, blue = GetBValue rgb \<rparr>"

definition GetIndex :: "TextColor \<Rightarrow> 8 word" where
  "GetIndex c = red c"

text \<open>
  Modelled from the spec: \<^verbatim>\<open>TextColor::CanBeBrightened\<close>, which the header only
  declares (\<^verbatim>\<open>TextColor.cpp\<close> is not among the sources). It is true only for
  Indexed16 colours 0 to 7.
\<close>

definition CanBeBrightened :: "TextColor \<Rightarrow> bool" where
  "CanBeBrightened c = (meta c = IsIndex16 \<and> GetIndex c \<le> 7)"

text \<open>
  Modelled from the spec: \<^verbatim>\<open>TextColor::GetRGB\<close>, declared in the header only. It is
  the stored value of an RGB colour: the three bytes, put together.
\<close>

definition GetRGB :: "TextColor \<Rightarrow> 32 word" where
  "GetRGB c = RGB (red c) (green c) (blue c)"

text \<open>
  Modelled from the spec: \<^verbatim>\<open>TextColor::GetColor\<close>, declared in the header only. It
  resolves a Default colour to the default colour given, an indexed colour to the
  entry of the table at its index, and an RGB colour to its stored value; the
  brightened variant adds a fixed luminance offset, only for the legacy indices 0 to 7
  and only when asked. The spec does not say what the offset is: it is the parameter
  \<open>offset\<close>. The table is the 256-entry palette, one entry for every value of the
  index.
\<close>

definition GetColor ::
  "(32 word \<Rightarrow> 32 word) \<Rightarrow> TextColor \<Rightarrow> (nat \<Rightarrow> 32 word) \<Rightarrow> 32 word \<Rightarrow> bool \<Rightarrow> 32 word" where
  "GetColor offset c table defaultColor brighten =
     (case meta c of
        IsDefault \<Rightarrow> defaultColor
      | IsRgb \<Rightarrow> GetRGB c
      | _ \<Rightarrow>
          if brighten \<and> CanBeBrightened c
          then offset (table (unat (GetIndex c)))
          else table (unat (GetIndex c)))"

text \<open>
  Modelled from the spec: \<^verbatim>\<open>SetColorTableEntry\<close> of the terminal, which the dispatcher
  forwards to and whose file is not among the sources; it stores the value at the
  index of the table.
\<close>

definition SetColorTableEntry :: "nat \<Rightarrow> 32 word \<Rightarrow> (nat \<Rightarrow> 32 word) \<Rightarrow> (nat \<Rightarrow> 32 word)" where
  "SetColorTableEntry tableIndex color table = table(tableIndex := color)"

section \<open>Properties of the multi-click tracking\<close>

lemma unat_plus2: "unat (n + 3 - 1 :: 32 word) = (unat n + 2) mod 4294967296"
  by (simp add: unat_word_ariths)

lemma unat_mod3: "unat (w mod 3 :: 32 word) = unat w mod 3"
  by (simp add: unat_mod)

lemma unat_succ: "unat (w :: 32 word) < 3 \<Longrightarrow> unat (w + 1) = unat w + 1"
  by (simp add: unat_word_ariths)

text \<open>The mapped value as a natural number, with the wrap-around of the sum in view.\<close>

lemma multiClickMapper_unat:
  "unat (multiClickMapper n) =
     (if 3 < unat n then ((unat n + 2) mod 4294967296) mod 3 + 1 else unat n)"
proof (cases "3 < unat n")
  case True
  have "unat ((n + 3 - 1) mod 3) < 3"
    by (simp add: unat_mod3)
  then have "unat ((n + 3 - 1) mod 3 + 1) = ((unat n + 2) mod 4294967296) mod 3 + 1"
    by (simp only: unat_succ unat_mod3 unat_plus2)
  moreover from True have "3 < n" by (simp add: word_less_nat_alt)
  ultimately show ?thesis using True
    by (simp add: multiClickMapper_def MAX_CLICK_COUNT_def)
next
  case False
  then have "\<not> 3 < n" by (simp add: word_less_nat_alt)
  with False show ?thesis
    by (simp add: multiClickMapper_def MAX_CLICK_COUNT_def)
qed

lemma mod3_shift:
  assumes "1 \<le> (k::nat)"
  shows "(k + 2) mod 3 = (k - 1) mod 3"
proof -
  from assms have "k + 2 = (k - 1) + 3" by arith
  then have "(k + 2) mod 3 = ((k - 1) + 3) mod 3" by (rule arg_cong)
  also have "\<dots> = (k - 1) mod 3" by (rule mod_add_self2)
  finally show ?thesis .
qed

lemma one_two_three: "1 \<le> k \<Longrightarrow> \<not> 3 < k \<Longrightarrow> k = 1 \<or> k = 2 \<or> k = (3::nat)"
  by arith

lemma mod3_succ_range: "(k::nat) mod 3 + 1 = 1 \<or> k mod 3 + 1 = 2 \<or> k mod 3 + 1 = 3"
  by presburger

lemma sum_below_wrap: "k \<le> 4294967293 \<Longrightarrow> (k + 2) mod 4294967296 = (k + 2 :: nat)"
  by (rule mod_less) linarith

lemma word_one_two_three:
  "unat (w :: 32 word) = 1 \<or> unat w = 2 \<or> unat w = 3 \<Longrightarrow> w = 1 \<or> w = 2 \<or> w = 3"
  by (auto simp: word_unat_eq_iff)

text \<open>
  For every click count from 1 on, the wrap included, the mapped value is 1, 2 or 3.
\<close>

lemma multiClickMapper_range:
  assumes "1 \<le> unat n"
  shows "multiClickMapper n \<in> {1, 2, 3}"
proof -
  have "unat (multiClickMapper n) = 1 \<or> unat (multiClickMapper n) = 2 \<or>
        unat (multiClickMapper n) = 3"
  proof (cases "3 < unat n")
    case True
    then have "unat (multiClickMapper n) = ((unat n + 2) mod 4294967296) mod 3 + 1"
      by (simp only: multiClickMapper_unat if_True)
    with mod3_succ_range [of "(unat n + 2) mod 4294967296"] show ?thesis
      by simp
  next
    case False
    then have "unat (multiClickMapper n) = unat n"
      by (simp only: multiClickMapper_unat if_False)
    with one_two_three [OF assms False] show ?thesis
      by simp
  qed
  then have "multiClickMapper n = 1 \<or> multiClickMapper n = 2 \<or> multiClickMapper n = 3"
    by (rule word_one_two_three)
  then show ?thesis by simp
qed

text \<open>
  For every click count \<open>n\<close> with \<open>1 \<le> n \<le> 4294967293\<close>, the counts for which
  \<open>n + 2\<close> does not wrap, the mapped value is \<open>((n - 1) mod 3) + 1\<close>.
\<close>

lemma multiClickMapper_cycle:
  assumes "1 \<le> unat n" and "unat n \<le> 4294967293"
  shows "unat (multiClickMapper n) = (unat n - 1) mod 3 + 1"
proof (cases "3 < unat n")
  case True
  then have "unat (multiClickMapper n) = ((unat n + 2) mod 4294967296) mod 3 + 1"
    by (simp only: multiClickMapper_unat if_True)
  also have "\<dots> = (unat n + 2) mod 3 + 1"
    by (simp only: sum_below_wrap [OF assms(2)])
  also have "\<dots> = (unat n - 1) mod 3 + 1"
    by (simp only: mod3_shift [OF assms(1)])
  finally show ?thesis .
next
  case False
  then have m: "unat (multiClickMapper n) = unat n"
    by (simp only: multiClickMapper_unat if_False)
  from one_two_three [OF assms(1) False] show ?thesis
    by (auto simp: m)
qed

text \<open>One call of \<^verbatim>\<open>_StartSelection\<close>, case by case.\<close>

lemma multiClickMapper_1: "multiClickMapper 1 = 1"
  by (simp add: multiClickMapper_def MAX_CLICK_COUNT_def)

lemma StartSelection_stores_pos:
  "lastMouseClickPos (snd (snd (StartSelection d t p a f ta tb))) = Some p"
proof (cases "Some p \<noteq> lastMouseClickPos t \<or> ta - lastMouseClickTimestamp t > multiClickTime t")
  case True
  then show ?thesis
    by (simp add: StartSelection_def NumberOfClicks_def Let_def multiClickMapper_1)
next
  case False
  then show ?thesis
    by (auto simp: StartSelection_def NumberOfClicks_def Let_def split: option.splits)
qed

lemma StartSelection_counter:
  "multiClickCounter (snd (snd (StartSelection d t p a f ta tb))) =
     (if Some p \<noteq> lastMouseClickPos t \<or> ta - lastMouseClickTimestamp t > multiClickTime t
      then 1 else multiClickCounter t + 1)"
  by (auto simp: StartSelection_def NumberOfClicks_def Let_def multiClickMapper_1
      split: option.splits)

lemma StartSelection_timestamp:
  "lastMouseClickTimestamp (snd (snd (StartSelection d t p a f ta tb))) =
     (if multiClickMapper (multiClickCounter (snd (snd (StartSelection d t p a f ta tb)))) = 3 \<or>
         multiClickMapper (multiClickCounter (snd (snd (StartSelection d t p a f ta tb)))) = 2
      then lastMouseClickTimestamp t else tb)"
  by (auto simp: StartSelection_def NumberOfClicks_def Let_def multiClickMapper_1
      split: option.splits)

lemma StartSelection_touchdown:
  "singleClickTouchdownPos (snd (snd (StartSelection d t p a f ta tb))) =
     (if multiClickMapper (multiClickCounter (snd (snd (StartSelection d t p a f ta tb)))) = 3 \<or>
         multiClickMapper (multiClickCounter (snd (snd (StartSelection d t p a f ta tb)))) = 2
      then singleClickTouchdownPos t else Some p)"
  by (auto simp: StartSelection_def NumberOfClicks_def Let_def multiClickMapper_1
      split: option.splits)

text \<open>The calls of \<^verbatim>\<open>_StartSelection\<close> follow the mapped value of the new count.\<close>

lemma StartSelection_calls:
  "fst (snd (StartSelection d t p a f ta tb)) =
     (if multiClickMapper (multiClickCounter (snd (snd (StartSelection d t p a f ta tb)))) = 3
      then (case d p f of
              None \<Rightarrow> [SetBlockSelection a]
            | Some cell \<Rightarrow> [SetBlockSelection a, MultiClickSelection cell Line, TriggerSelection])
      else if multiClickMapper (multiClickCounter (snd (snd (StartSelection d t p a f ta tb)))) = 2
      then (case d p f of
              None \<Rightarrow> [SetBlockSelection a]
            | Some cell \<Rightarrow> [SetBlockSelection a, MultiClickSelection cell Word, TriggerSelection])
      else [SetBlockSelection a, ClearSelection, TriggerSelection])"
  by (auto simp: StartSelection_def NumberOfClicks_def Let_def multiClickMapper_1
      split: option.splits)

lemma StartSelection_reset:
  assumes "Some p \<noteq> lastMouseClickPos t \<or> ta - lastMouseClickTimestamp t > multiClickTime t"
  shows "StartSelection d t p a f ta tb =
     (S_OK_returned, [SetBlockSelection a, ClearSelection, TriggerSelection],
      t\<lparr> multiClickCounter := 1, singleClickTouchdownPos := Some p,
         lastMouseClickTimestamp := tb, lastMouseClickPos := Some p \<rparr>)"
  using assms by (simp add: StartSelection_def NumberOfClicks_def Let_def multiClickMapper_1)

text \<open>
  Between two presses the window procedure sees the release of the button, which
  leaves the stored position, time and count alone: after any run of presses and
  releases the stored position is the position of the latest press.
\<close>

lemma LButtonUp_keeps:
  "lastMouseClickPos (WndProc d t LButtonUp) = lastMouseClickPos t \<and>
   lastMouseClickTimestamp (WndProc d t LButtonUp) = lastMouseClickTimestamp t \<and>
   multiClickCounter (WndProc d t LButtonUp) = multiClickCounter t \<and>
   multiClickTime (WndProc d t LButtonUp) = multiClickTime t"
  by simp

lemma releases_keep_pos:
  "lastMouseClickPos (foldl (WndProc d) t (replicate k LButtonUp)) = lastMouseClickPos t"
  by (induction k arbitrary: t) simp_all

lemma previous_click_stored:
  "lastMouseClickPos
     (foldl (WndProc d) t (evs @ LButtonDown prev a f ta tb # replicate k LButtonUp)) = Some prev"
  by (simp add: releases_keep_pos StartSelection_stores_pos)

text \<open>
  Claim C8, as stated: a click at the position of the previous click and within the
  multi-click interval of it increments the counter, and the count 3 selects the line.
  Three clicks at \<open>(10, 10)\<close>, 400 ms apart, with the interval of 500 ms: the third
  click is at the position of the second and 400 ms after it, yet the counter goes
  from 2 back to 1 and the selection is cleared for a drag. The stored time stamp is
  still that of the first click, 800 ms back: only a click handled as a single click
  stores its time.
\<close>

theorem third_click_resets:
  "multiClickCounter (clicks HwndTerminal_init False (8, 16)
       [((10, 10), 1000, 1000), ((10, 10), 1400, 1400)]) = 2 \<and>
   lastMouseClickPos (clicks HwndTerminal_init False (8, 16)
       [((10, 10), 1000, 1000), ((10, 10), 1400, 1400)]) = Some (10, 10) \<and>
   (1800 :: int) - 1400 \<le> multiClickTime (clicks HwndTerminal_init False (8, 16)
       [((10, 10), 1000, 1000), ((10, 10), 1400, 1400)]) \<and>
   multiClickCounter (clicks HwndTerminal_init False (8, 16)
       [((10, 10), 1000, 1000), ((10, 10), 1400, 1400), ((10, 10), 1800, 1800)]) = 1 \<and>
   fst (snd (StartSelection point_div (clicks HwndTerminal_init False (8, 16)
       [((10, 10), 1000, 1000), ((10, 10), 1400, 1400)]) (10, 10) False (8, 16) 1800 1800))
     = [SetBlockSelection False, ClearSelection, TriggerSelection]"
  by (simp add: HwndTerminal_init_def StartSelection_def NumberOfClicks_def Let_def
      multiClickMapper_def MAX_CLICK_COUNT_def point_div_def)

text \<open>
  Claim C8, amended. Take any state \<open>t\<close> of the terminal and a click at \<open>pos\<close>;
  the position of the previous click is the stored \<^verbatim>\<open>_lastMouseClickPos\<close> (every
  click leaves its own position there, and the release of the button does not touch
  it). When the click lands at the position of the previous click and within the
  multi-click interval of the stored \<^verbatim>\<open>_lastMouseClickTimestamp\<close>, the counter
  increments, and a count of 2 triggers the word expansion and a count of 3 the line
  expansion, on the cell the division of the position by the font size yields,
  instead of a drag selection: the selection is not cleared and no touch-down position
  is stored. When the position changed or that interval elapsed, the counter resets
  to 1 and a drag selection begins: the selection is cleared and the touch-down
  position is stored. The stored time stamp is the time of the latest click handled
  as a single click: a click stores its time unless it is a word or line click.
\<close>

theorem StartSelection_multi_click:
  assumes cur: "StartSelection d t pos alt fs now1 now2 = (res, calls, t')"
  shows
    "(lastMouseClickPos t = Some pos \<and> now1 - lastMouseClickTimestamp t \<le> multiClickTime t \<longrightarrow>
        multiClickCounter t' = multiClickCounter t + 1 \<and>
        (multiClickCounter t' = 2 \<longrightarrow>
           ClearSelection \<notin> set calls \<and>
           singleClickTouchdownPos t' = singleClickTouchdownPos t \<and>
           (\<forall>cell. d pos fs = Some cell \<longrightarrow>
              res = S_OK_returned \<and>
              calls = [SetBlockSelection alt, MultiClickSelection cell Word, TriggerSelection])) \<and>
        (multiClickCounter t' = 3 \<longrightarrow>
           ClearSelection \<notin> set calls \<and>
           singleClickTouchdownPos t' = singleClickTouchdownPos t \<and>
           (\<forall>cell. d pos fs = Some cell \<longrightarrow>
              res = S_OK_returned \<and>
              calls = [SetBlockSelection alt, MultiClickSelection cell Line, TriggerSelection]))) \<and>
     (lastMouseClickPos t \<noteq> Some pos \<or> now1 - lastMouseClickTimestamp t > multiClickTime t \<longrightarrow>
        multiClickCounter t' = 1 \<and>
        res = S_OK_returned \<and>
        calls = [SetBlockSelection alt, ClearSelection, TriggerSelection] \<and>
        singleClickTouchdownPos t' = Some pos) \<and>
     lastMouseClickPos t' = Some pos \<and>
     lastMouseClickTimestamp t' =
       (if multiClickMapper (multiClickCounter t') = 3 \<or> multiClickMapper (multiClickCounter t') = 2
        then lastMouseClickTimestamp t else now2)"
proof -
  have t'_eq: "t' = snd (snd (StartSelection d t pos alt fs now1 now2))"
    and calls_eq: "calls = fst (snd (StartSelection d t pos alt fs now1 now2))"
    and res_eq: "res = fst (StartSelection d t pos alt fs now1 now2)"
    by (simp_all add: cur)
  have m2: "multiClickMapper 2 = 2" and m3: "multiClickMapper 3 = 3"
    by (simp_all add: multiClickMapper_def MAX_CLICK_COUNT_def)
  have res_ok: "res = S_OK_returned" if "d pos fs = Some cell" for cell
    using that unfolding res_eq
    by (simp add: StartSelection_def NumberOfClicks_def Let_def split: prod.splits)
  have same: "multiClickCounter t' = multiClickCounter t + 1"
    if "lastMouseClickPos t = Some pos" "now1 - lastMouseClickTimestamp t \<le> multiClickTime t"
    using that by (simp add: t'_eq StartSelection_counter)
  have word: "ClearSelection \<notin> set calls \<and>
           singleClickTouchdownPos t' = singleClickTouchdownPos t \<and>
           (\<forall>cell. d pos fs = Some cell \<longrightarrow>
              res = S_OK_returned \<and>
              calls = [SetBlockSelection alt, MultiClickSelection cell Word, TriggerSelection])"
    if c: "multiClickCounter t' = 2"
  proof -
    from c have c': "multiClickCounter (snd (snd (StartSelection d t pos alt fs now1 now2))) = 2"
      by (simp only: t'_eq)
    have calls2: "calls = (case d pos fs of
              None \<Rightarrow> [SetBlockSelection alt]
            | Some cell \<Rightarrow> [SetBlockSelection alt, MultiClickSelection cell Word, TriggerSelection])"
      unfolding calls_eq StartSelection_calls c' m2 by simp
    have td: "singleClickTouchdownPos t' = singleClickTouchdownPos t"
      unfolding t'_eq StartSelection_touchdown c' m2 by simp
    from calls2 td res_ok show ?thesis
      by (auto split: option.splits)
  qed
  have line: "ClearSelection \<notin> set calls \<and>
           singleClickTouchdownPos t' = singleClickTouchdownPos t \<and>
           (\<forall>cell. d pos fs = Some cell \<longrightarrow>
              res = S_OK_returned \<and>
              calls = [SetBlockSelection alt, MultiClickSelection cell Line, TriggerSelection])"
    if c: "multiClickCounter t' = 3"
  proof -
    from c have c': "multiClickCounter (snd (snd (StartSelection d t pos alt fs now1 now2))) = 3"
      by (simp only: t'_eq)
    have calls3: "calls = (case d pos fs of
              None \<Rightarrow> [SetBlockSelection alt]
            | Some cell \<Rightarrow> [SetBlockSelection alt, MultiClickSelection cell Line, TriggerSelection])"
      unfolding calls_eq StartSelection_calls c' m3 by simp
    have td: "singleClickTouchdownPos t' = singleClickTouchdownPos t"
      unfolding t'_eq StartSelection_touchdown c' m3 by simp
    from calls3 td res_ok show ?thesis
      by (auto split: option.splits)
  qed
  have other: "multiClickCounter t' = 1 \<and>
        res = S_OK_returned \<and>
        calls = [SetBlockSelection alt, ClearSelection, TriggerSelection] \<and>
        singleClickTouchdownPos t' = Some pos"
    if h: "lastMouseClickPos t \<noteq> Some pos \<or> now1 - lastMouseClickTimestamp t > multiClickTime t"
  proof -
    from h
    have "Some pos \<noteq> lastMouseClickPos t \<or> now1 - lastMouseClickTimestamp t > multiClickTime t"
      by auto
    from StartSelection_reset [where d = d and a = alt and f = fs and tb = now2, OF this]
    show ?thesis
      by (simp add: t'_eq calls_eq res_eq)
  qed
  have pos: "lastMouseClickPos t' = Some pos"
    unfolding t'_eq by (rule StartSelection_stores_pos)
  have stamp: "lastMouseClickTimestamp t' =
       (if multiClickMapper (multiClickCounter t') = 3 \<or> multiClickMapper (multiClickCounter t') = 2
        then lastMouseClickTimestamp t else now2)"
    unfolding t'_eq by (rule StartSelection_timestamp)
  from same word line other pos stamp show ?thesis by blast
qed

text \<open>A double click with the release of the button between the presses.\<close>

theorem StartSelection_multi_click_witness:
  "lastMouseClickPos (foldl (WndProc point_div) HwndTerminal_init
       [LButtonDown (10, 10) False (8, 16) 1000 1000, LButtonUp]) = Some (10, 10) \<and>
   (1400 :: int) - lastMouseClickTimestamp (foldl (WndProc point_div) HwndTerminal_init
       [LButtonDown (10, 10) False (8, 16) 1000 1000, LButtonUp])
     \<le> multiClickTime (foldl (WndProc point_div) HwndTerminal_init
       [LButtonDown (10, 10) False (8, 16) 1000 1000, LButtonUp]) \<and>
   point_div (10, 10) (8, 16) = Some (1, 0) \<and>
   StartSelection point_div (foldl (WndProc point_div) HwndTerminal_init
       [LButtonDown (10, 10) False (8, 16) 1000 1000, LButtonUp]) (10, 10) False (8, 16) 1400 1400
     = (S_OK_returned,
        [SetBlockSelection False, MultiClickSelection (1, 0) Word, TriggerSelection],
        \<lparr> multiClickTime = 500, multiClickCounter = 2, lastMouseClickTimestamp = 1000,
          lastMouseClickPos = Some (10, 10), singleClickTouchdownPos = None \<rparr>)"
proof -
  have run: "StartSelection point_div (foldl (WndProc point_div) HwndTerminal_init
       [LButtonDown (10, 10) False (8, 16) 1000 1000, LButtonUp]) (10, 10) False (8, 16) 1400 1400
     = (S_OK_returned,
        [SetBlockSelection False, MultiClickSelection (1, 0) Word, TriggerSelection],
        \<lparr> multiClickTime = 500, multiClickCounter = 2, lastMouseClickTimestamp = 1000,
          lastMouseClickPos = Some (10, 10), singleClickTouchdownPos = None \<rparr>)"
    by (simp add: HwndTerminal_init_def StartSelection_def NumberOfClicks_def Let_def
        multiClickMapper_def MAX_CLICK_COUNT_def point_div_def signed_divide_int_def)
  have before: "foldl (WndProc point_div) HwndTerminal_init
       [LButtonDown (10, 10) False (8, 16) 1000 1000, LButtonUp]
     = \<lparr> multiClickTime = 500, multiClickCounter = 1, lastMouseClickTimestamp = 1000,
         lastMouseClickPos = Some (10, 10), singleClickTouchdownPos = None \<rparr>"
    by (simp add: HwndTerminal_init_def StartSelection_def NumberOfClicks_def Let_def
        multiClickMapper_def MAX_CLICK_COUNT_def)
  have cell: "point_div (10, 10) (8, 16) = Some (1, 0)"
    by (simp add: point_div_def signed_divide_int_def)
  from StartSelection_multi_click [OF run] before cell run show ?thesis
    by simp
qed

text \<open>
  With a font of no width, as the constructor leaves it, the division has no result
  under \<open>point_div\<close>: the second click counts as 2 and nothing is selected.
\<close>

lemma double_click_without_font:
  "StartSelection point_div (foldl (WndProc point_div) HwndTerminal_init
       [LButtonDown (10, 10) False (0, 14) 1000 1000, LButtonUp]) (10, 10) False (0, 14) 1400 1400
     = (Exception_caught, [SetBlockSelection False],
        \<lparr> multiClickTime = 500, multiClickCounter = 2, lastMouseClickTimestamp = 1000,
          lastMouseClickPos = Some (10, 10), singleClickTouchdownPos = None \<rparr>)"
  by (simp add: HwndTerminal_init_def StartSelection_def NumberOfClicks_def Let_def
      multiClickMapper_def MAX_CLICK_COUNT_def point_div_def)

text \<open>
  The cycle within \<^verbatim>\<open>_StartSelection\<close>: for a click at the stored position and
  within the interval that brings the count to \<open>n \<le> 4294967293\<close>, the function
  selects by \<open>((n - 1) mod 3) + 1\<close>: the line for 3, the word for 2, a drag for 1.
\<close>

lemma StartSelection_cycle:
  assumes p: "lastMouseClickPos t = Some pos"
    and i: "now1 - lastMouseClickTimestamp t \<le> multiClickTime t"
    and n: "unat (multiClickCounter t) + 1 \<le> 4294967293"
    and c: "d pos fs = Some cell"
  shows "unat (multiClickCounter (snd (snd (StartSelection d t pos alt fs now1 now2))))
           = unat (multiClickCounter t) + 1 \<and>
         fst (snd (StartSelection d t pos alt fs now1 now2)) =
           (if unat (multiClickCounter t) mod 3 + 1 = 3
            then [SetBlockSelection alt, MultiClickSelection cell Line, TriggerSelection]
            else if unat (multiClickCounter t) mod 3 + 1 = 2
            then [SetBlockSelection alt, MultiClickSelection cell Word, TriggerSelection]
            else [SetBlockSelection alt, ClearSelection, TriggerSelection])"
proof -
  let ?t' = "snd (snd (StartSelection d t pos alt fs now1 now2))"
  from p i have cnt: "multiClickCounter ?t' = multiClickCounter t + 1"
    by (simp add: StartSelection_counter)
  from n have "unat (multiClickCounter t) + unat (1 :: 32 word) < 2 ^ LENGTH(32)"
    by simp
  then have "unat (multiClickCounter t + 1) = unat (multiClickCounter t) + unat (1 :: 32 word)"
    by (simp only: unat_add_lem [THEN iffD1])
  then have u: "unat (multiClickCounter ?t') = unat (multiClickCounter t) + 1"
    by (simp add: cnt)
  have lo: "1 \<le> unat (multiClickCounter ?t')"
    unfolding u by (rule le_add2)
  have hi: "unat (multiClickCounter ?t') \<le> 4294967293"
    unfolding u by (rule n)
  from multiClickMapper_cycle [OF lo hi]
  have m: "unat (multiClickMapper (multiClickCounter ?t')) = unat (multiClickCounter t) mod 3 + 1"
    by (simp add: u)
  have three: "(multiClickMapper (multiClickCounter ?t') = 3)
                 = (unat (multiClickCounter t) mod 3 + 1 = 3)"
    unfolding m [symmetric] by (simp add: word_unat_eq_iff)
  have two: "(multiClickMapper (multiClickCounter ?t') = 2)
                 = (unat (multiClickCounter t) mod 3 + 1 = 2)"
    unfolding m [symmetric] by (simp add: word_unat_eq_iff)
  have "fst (snd (StartSelection d t pos alt fs now1 now2)) =
           (if unat (multiClickCounter t) mod 3 + 1 = 3
            then [SetBlockSelection alt, MultiClickSelection cell Line, TriggerSelection]
            else if unat (multiClickCounter t) mod 3 + 1 = 2
            then [SetBlockSelection alt, MultiClickSelection cell Word, TriggerSelection]
            else [SetBlockSelection alt, ClearSelection, TriggerSelection])"
    unfolding StartSelection_calls three two by (simp add: c)
  with u show ?thesis by simp
qed

text \<open>
  Rapid clicks reach every count. From the state the constructor leaves, \<open>k\<close>
  presses at one position, each followed by the release of the button and all read
  at one time of the clock, leave the counter at \<open>k\<close>.
\<close>

lemma click_and_release:
  "foldl (WndProc d)
     \<lparr> multiClickTime = 500, multiClickCounter = c, lastMouseClickTimestamp = 1000,
       lastMouseClickPos = Some p, singleClickTouchdownPos = None \<rparr>
     [LButtonDown p a f 1000 1000, LButtonUp]
   = \<lparr> multiClickTime = 500, multiClickCounter = c + 1, lastMouseClickTimestamp = 1000,
       lastMouseClickPos = Some p, singleClickTouchdownPos = None \<rparr>"
  by (auto simp: StartSelection_def NumberOfClicks_def Let_def split: option.splits)

lemma first_click_and_release:
  "foldl (WndProc d) HwndTerminal_init [LButtonDown p a f 1000 1000, LButtonUp]
   = \<lparr> multiClickTime = 500, multiClickCounter = 1, lastMouseClickTimestamp = 1000,
       lastMouseClickPos = Some p, singleClickTouchdownPos = None \<rparr>"
  by (simp add: HwndTerminal_init_def StartSelection_def NumberOfClicks_def Let_def
      multiClickMapper_1)

lemma more_rapid_clicks:
  "foldl (WndProc d)
     \<lparr> multiClickTime = 500, multiClickCounter = c, lastMouseClickTimestamp = 1000,
       lastMouseClickPos = Some p, singleClickTouchdownPos = None \<rparr>
     (concat (replicate k [LButtonDown p a f 1000 1000, LButtonUp]))
   = \<lparr> multiClickTime = 500, multiClickCounter = c + of_nat k, lastMouseClickTimestamp = 1000,
       lastMouseClickPos = Some p, singleClickTouchdownPos = None \<rparr>"
proof (induction k arbitrary: c)
  case 0
  show ?case by simp
next
  case (Suc k)
  have "foldl (WndProc d)
     \<lparr> multiClickTime = 500, multiClickCounter = c, lastMouseClickTimestamp = 1000,
       lastMouseClickPos = Some p, singleClickTouchdownPos = None \<rparr>
     (concat (replicate (Suc k) [LButtonDown p a f 1000 1000, LButtonUp]))
     = foldl (WndProc d)
        (foldl (WndProc d)
           \<lparr> multiClickTime = 500, multiClickCounter = c, lastMouseClickTimestamp = 1000,
             lastMouseClickPos = Some p, singleClickTouchdownPos = None \<rparr>
           [LButtonDown p a f 1000 1000, LButtonUp])
        (concat (replicate k [LButtonDown p a f 1000 1000, LButtonUp]))"
    by (simp only: replicate_Suc concat.simps foldl_append)
  also have "\<dots> = \<lparr> multiClickTime = 500, multiClickCounter = c + 1 + of_nat k,
       lastMouseClickTimestamp = 1000, lastMouseClickPos = Some p,
       singleClickTouchdownPos = None \<rparr>"
    by (simp only: click_and_release Suc.IH)
  finally show ?case by (simp add: ac_simps)
qed

lemma rapid_clicks:
  assumes "0 < k"
  shows "foldl (WndProc d) HwndTerminal_init
     (concat (replicate k [LButtonDown p a f 1000 1000, LButtonUp]))
   = \<lparr> multiClickTime = 500, multiClickCounter = of_nat k, lastMouseClickTimestamp = 1000,
       lastMouseClickPos = Some p, singleClickTouchdownPos = None \<rparr>"
proof -
  from assms obtain j where k: "k = Suc j" by (cases k) auto
  have "foldl (WndProc d) HwndTerminal_init
     (concat (replicate (Suc j) [LButtonDown p a f 1000 1000, LButtonUp]))
     = foldl (WndProc d)
        (foldl (WndProc d) HwndTerminal_init [LButtonDown p a f 1000 1000, LButtonUp])
        (concat (replicate j [LButtonDown p a f 1000 1000, LButtonUp]))"
    by (simp only: replicate_Suc concat.simps foldl_append)
  also have "\<dots> = \<lparr> multiClickTime = 500, multiClickCounter = 1 + of_nat j,
       lastMouseClickTimestamp = 1000, lastMouseClickPos = Some p,
       singleClickTouchdownPos = None \<rparr>"
    by (simp only: first_click_and_release more_rapid_clicks)
  finally show ?thesis by (simp add: k)
qed

text \<open>
  Claim C10: for every click count \<open>n \<ge> 1\<close> the value \<^verbatim>\<open>_StartSelection\<close> switches
  on is \<open>((n - 1) mod 3) + 1\<close>, so that clicks cycle through single click, word and
  line with period three. The code at the count \<open>n = 4294967295\<close>: after 4294967294
  rapid clicks at \<open>(10, 10)\<close> the counter stands at \<open>4294967294\<close>, and one more
  click lands there within the interval. The sum \<^verbatim>\<open>clickCount + MAX_CLICK_COUNT - 1\<close>
  wraps to 1 in \<^verbatim>\<open>unsigned int\<close>, the mapped value is 2 and the word is selected,
  where \<open>((n - 1) mod 3) + 1\<close> is 3, the line.
\<close>

theorem StartSelection_at_wrapped_sum:
  "foldl (WndProc point_div) HwndTerminal_init
       (concat (replicate 4294967294 [LButtonDown (10, 10) False (8, 16) 1000 1000, LButtonUp]))
     = \<lparr> multiClickTime = 500, multiClickCounter = 4294967294, lastMouseClickTimestamp = 1000,
         lastMouseClickPos = Some (10, 10), singleClickTouchdownPos = None \<rparr> \<and>
   StartSelection point_div
       \<lparr> multiClickTime = 500, multiClickCounter = 4294967294, lastMouseClickTimestamp = 1000,
         lastMouseClickPos = Some (10, 10), singleClickTouchdownPos = None \<rparr>
       (10, 10) False (8, 16) 1400 1400
     = (S_OK_returned,
        [SetBlockSelection False, MultiClickSelection (1, 0) Word, TriggerSelection],
        \<lparr> multiClickTime = 500, multiClickCounter = 4294967295, lastMouseClickTimestamp = 1000,
          lastMouseClickPos = Some (10, 10), singleClickTouchdownPos = None \<rparr>) \<and>
   multiClickMapper 4294967295 = 2 \<and>
   (unat (4294967295 :: 32 word) - 1) mod 3 + 1 = 3"
proof -
  have "foldl (WndProc point_div) HwndTerminal_init
       (concat (replicate 4294967294 [LButtonDown (10, 10) False (8, 16) 1000 1000, LButtonUp]))
     = \<lparr> multiClickTime = 500, multiClickCounter = of_nat 4294967294,
         lastMouseClickTimestamp = 1000, lastMouseClickPos = Some (10, 10),
         singleClickTouchdownPos = None \<rparr>"
    by (rule rapid_clicks) simp
  moreover have "(of_nat 4294967294 :: 32 word) = 4294967294"
    by simp
  ultimately have reached: "foldl (WndProc point_div) HwndTerminal_init
       (concat (replicate 4294967294 [LButtonDown (10, 10) False (8, 16) 1000 1000, LButtonUp]))
     = \<lparr> multiClickTime = 500, multiClickCounter = 4294967294, lastMouseClickTimestamp = 1000,
         lastMouseClickPos = Some (10, 10), singleClickTouchdownPos = None \<rparr>"
    by (simp only:)
  have run: "StartSelection point_div
       \<lparr> multiClickTime = 500, multiClickCounter = 4294967294, lastMouseClickTimestamp = 1000,
         lastMouseClickPos = Some (10, 10), singleClickTouchdownPos = None \<rparr>
       (10, 10) False (8, 16) 1400 1400
     = (S_OK_returned,
        [SetBlockSelection False, MultiClickSelection (1, 0) Word, TriggerSelection],
        \<lparr> multiClickTime = 500, multiClickCounter = 4294967295, lastMouseClickTimestamp = 1000,
          lastMouseClickPos = Some (10, 10), singleClickTouchdownPos = None \<rparr>)"
    by (simp add: StartSelection_def NumberOfClicks_def Let_def multiClickMapper_def
        MAX_CLICK_COUNT_def point_div_def signed_divide_int_def)
  have mapped: "multiClickMapper 4294967295 = 2"
    by (simp add: multiClickMapper_def MAX_CLICK_COUNT_def)
  have formula: "(unat (4294967295 :: 32 word) - 1) mod 3 + 1 = 3"
    by simp
  from reached run mapped formula show ?thesis
    by (intro conjI)
qed

section \<open>Properties of the dispatcher\<close>

text \<open>
  The recorded calls of a hard reset, whatever the outcomes: the four calls of the
  soft reset, the two erases, the screen mode and the cursor position, zero-based.
\<close>

lemma HardReset_log:
  "snd (HardReset (logging_env ok) log) = log @
     [Api (ApiSetCursorVisibility True), Api (ApiSetCursorKeysMode False),
      Api (ApiSetKeypadMode False), Sgr [],
      Api (ApiEraseInDisplay EraseAll), Api (ApiEraseInDisplay EraseScrollback),
      Api (ApiSetScreenMode False), Api (ApiSetCursorPosition 0 0)]"
  by (simp add: HardReset_def SoftReset_def logging_env_def Let_def CursorVisibility_def
      SetCursorKeysMode_def SetKeypadMode_def EraseInDisplay_def SetScreenMode_def
      CursorPosition_def SHORT_MAX_def)

text \<open>
  Claim C2: \<^verbatim>\<open>HardReset\<close> performs, in this order, the soft reset, the erase of the
  display (All), the erase of the scrollback, the reset of the screen mode to normal
  and the move of the cursor to (1,1), each on the state the one before left; and for
  every outcome of the five its result is the conjunction of their results. On the
  recording terminal the calls appear in that order whatever their outcomes.
\<close>

theorem HardReset_order_and_success:
  "HardReset env s =
     (let (b1, s1) = SoftReset env s;
          (b2, s2) = EraseInDisplay env EraseAll s1;
          (b3, s3) = EraseInDisplay env EraseScrollback s2;
          (b4, s4) = SetScreenMode env False s3;
          (b5, s5) = CursorPosition env 1 1 s4
      in (b1 \<and> b2 \<and> b3 \<and> b4 \<and> b5, s5)) \<and>
   snd (HardReset (logging_env ok) log) =
     snd (SoftReset (logging_env ok) log) @
       [Api (ApiEraseInDisplay EraseAll), Api (ApiEraseInDisplay EraseScrollback),
        Api (ApiSetScreenMode False), Api (ApiSetCursorPosition 0 0)]"
proof
  show "HardReset env s =
     (let (b1, s1) = SoftReset env s;
          (b2, s2) = EraseInDisplay env EraseAll s1;
          (b3, s3) = EraseInDisplay env EraseScrollback s2;
          (b4, s4) = SetScreenMode env False s3;
          (b5, s5) = CursorPosition env 1 1 s4
      in (b1 \<and> b2 \<and> b3 \<and> b4 \<and> b5, s5))"
    by (auto simp: HardReset_def Let_def split: prod.splits)
  show "snd (HardReset (logging_env ok) log) =
     snd (SoftReset (logging_env ok) log) @
       [Api (ApiEraseInDisplay EraseAll), Api (ApiEraseInDisplay EraseScrollback),
        Api (ApiSetScreenMode False), Api (ApiSetCursorPosition 0 0)]"
    unfolding HardReset_log
    by (simp add: SoftReset_def logging_env_def Let_def CursorVisibility_def
        SetCursorKeysMode_def SetKeypadMode_def)
qed

theorem HardReset_order_and_success_witness:
  "HardReset (logging_env (\<lambda>log c. c \<noteq> Api (ApiEraseInDisplay EraseScrollback))) [] =
     (False,
      [Api (ApiSetCursorVisibility True), Api (ApiSetCursorKeysMode False),
       Api (ApiSetKeypadMode False), Sgr [],
       Api (ApiEraseInDisplay EraseAll), Api (ApiEraseInDisplay EraseScrollback),
       Api (ApiSetScreenMode False), Api (ApiSetCursorPosition 0 0)])"
  using HardReset_order_and_success
    [of "logging_env (\<lambda>log c. c \<noteq> Api (ApiEraseInDisplay EraseScrollback))" "[]"
        "\<lambda>log c. True" "[]"]
  by (simp add: SoftReset_def logging_env_def Let_def CursorVisibility_def
      SetCursorKeysMode_def SetKeypadMode_def EraseInDisplay_def SetScreenMode_def
      CursorPosition_def SHORT_MAX_def)

text \<open>The \<^verbatim>\<open>switch\<close> of the helper, outside and inside its case labels.\<close>

lemma PrivateModeParamsHelper_unrecognized:
  "param \<notin> set (map code recognized_modes) \<Longrightarrow>
     PrivateModeParamsHelper env code param enable s = (False, s)"
  by (simp add: PrivateModeParamsHelper_def recognized_modes_def)

lemma recognized_modes_all: "set recognized_modes = UNIV"
proof -
  have "m \<in> set recognized_modes" for m
    by (cases m) (simp_all add: recognized_modes_def)
  then show ?thesis by blast
qed

lemma code_inj:
  assumes "distinct (map code recognized_modes)"
  shows "inj code"
proof -
  from assms have "inj_on code (set recognized_modes)"
    by (simp only: distinct_map)
  then show ?thesis by (simp only: recognized_modes_all)
qed

lemma PrivateModeParamsHelper_recognized:
  assumes "distinct (map code recognized_modes)"
  shows "PrivateModeParamsHelper env code (code m) enable s = mode_setter env m enable s"
proof -
  have eq: "(code a = code b) = (a = b)" for a b
    by (rule inj_eq [OF code_inj [OF assms]])
  show ?thesis
    by (cases m) (simp_all add: PrivateModeParamsHelper_def eq)
qed

text \<open>
  Claim C3: for every private-mode number that is not the number of one of the eleven
  recognized modes, \<^verbatim>\<open>SetPrivateMode\<close> and \<^verbatim>\<open>ResetPrivateMode\<close> return false (and
  leave the terminal as it is); for the number of a recognized mode they run the
  setter of that mode, with \<open>True\<close> for set and \<open>False\<close> for reset. The numbering
  of the enumerators is any numbering without duplicates, as a \<^verbatim>\<open>switch\<close> requires.
\<close>

theorem PrivateMode_dispatch:
  "(param \<notin> set (map code recognized_modes) \<longrightarrow>
      SetPrivateMode env code param s = (False, s) \<and>
      ResetPrivateMode env code param s = (False, s)) \<and>
   (distinct (map code recognized_modes) \<longrightarrow>
      SetPrivateMode env code (code m) s = mode_setter env m True s \<and>
      ResetPrivateMode env code (code m) s = mode_setter env m False s)"
  by (simp add: SetPrivateMode_def ResetPrivateMode_def
      PrivateModeParamsHelper_unrecognized PrivateModeParamsHelper_recognized)

theorem PrivateMode_dispatch_witness:
  "7 \<notin> set (map private_mode_number recognized_modes) \<and>
   distinct (map private_mode_number recognized_modes) \<and>
   SetPrivateMode (logging_env (\<lambda>log c. False)) private_mode_number 7 [] = (False, []) \<and>
   ResetPrivateMode (logging_env (\<lambda>log c. False)) private_mode_number 7 [] = (False, []) \<and>
   SetPrivateMode (logging_env (\<lambda>log c. False)) private_mode_number 25 [] =
     (False, [Api (ApiSetCursorVisibility True)]) \<and>
   ResetPrivateMode (logging_env (\<lambda>log c. False)) private_mode_number 1000 [] =
     (True, [Api (ApiEnableVT200MouseMode False)])"
  using PrivateMode_dispatch [of 7 private_mode_number "logging_env (\<lambda>log c. False)" "[]"
      DECTCEM_TextCursorEnableMode]
    PrivateMode_dispatch [of 7 private_mode_number "logging_env (\<lambda>log c. False)" "[]"
      VT200_MOUSE_MODE]
  by (simp add: recognized_modes_def CursorVisibility_def EnableVT200MouseMode_def
      logging_env_def)

section \<open>Properties of the console host's routines\<close>

text \<open>
  Claim C1: a cursor position with a negative coordinate, or with a coordinate at or
  past the dimension of the buffer, and a colour table write at an index of 256 or
  more, return the failure code \<^verbatim>\<open>E_INVALIDARG\<close> and leave the console (cursor,
  colour table, buffer contents and all the rest) exactly as it was.
\<close>

theorem out_of_range_requests_rejected:
  "(X position < 0 \<or> Y position < 0 \<or>
    X position \<ge> X (bufferSize c) \<or> Y position \<ge> Y (bufferSize c) \<longrightarrow>
      SetConsoleCursorPositionImpl env c position = (E_INVALIDARG, c)) \<and>
   (index \<ge> 256 \<longrightarrow> DoSrvPrivateSetColorTableEntry env c index v = (E_INVALIDARG, c)) \<and>
   FAILED E_INVALIDARG"
  by (auto simp: SetConsoleCursorPositionImpl_def DoSrvPrivateSetColorTableEntry_def Let_def
      FAILED_def E_INVALIDARG_def)

theorem out_of_range_requests_rejected_witness:
  "X \<lparr> X = 80, Y = 3 \<rparr> \<ge> X (bufferSize console_80x25) \<and> (256 :: nat) \<ge> 256 \<and>
   SetConsoleCursorPositionImpl plain_env console_80x25 \<lparr> X = 80, Y = 3 \<rparr>
     = (E_INVALIDARG, console_80x25) \<and>
   DoSrvPrivateSetColorTableEntry plain_env console_80x25 256 255
     = (E_INVALIDARG, console_80x25)"
  using out_of_range_requests_rejected
    [of "\<lparr> X = 80, Y = 3 \<rparr>" console_80x25 plain_env 256 255]
  by (simp add: console_80x25_def)

text \<open>In range, both requests go through on the plain console.\<close>

lemma SetConsoleCursorPositionImpl_in_range:
  "SetConsoleCursorPositionImpl plain_env console_80x25 \<lparr> X = 79, Y = 3 \<rparr> =
     (S_OK, console_80x25\<lparr> cursorPosition := \<lparr> X = 79, Y = 3 \<rparr> \<rparr>)"
  by (simp add: SetConsoleCursorPositionImpl_def plain_env_def console_80x25_def Let_def
      FAILED_def NT_SUCCESS_def S_OK_def)

lemma DoSrvPrivateSetColorTableEntry_in_range:
  "colorTable (snd (DoSrvPrivateSetColorTableEntry plain_env console_80x25 255 7)) 255 = 7"
  by (simp add: DoSrvPrivateSetColorTableEntry_def plain_env_def console_80x25_def Let_def)

text \<open>
  Claim C7: a resize request with a dimension smaller than the viewport, or with a
  dimension equal to \<^verbatim>\<open>SHORT_MAX\<close>, returns \<^verbatim>\<open>E_INVALIDARG\<close> and leaves the console
  as it was: the buffer keeps its dimensions and \<^verbatim>\<open>ResizeScreenBuffer\<close> is not called.
\<close>

theorem impossible_resize_rejected:
  "X sz < viewport_Width c \<or> Y sz < viewport_Height c \<or> X sz = SHORT_MAX \<or> Y sz = SHORT_MAX
     \<Longrightarrow> SetConsoleScreenBufferSizeImpl env c sz = (E_INVALIDARG, c)"
  by (auto simp: SetConsoleScreenBufferSizeImpl_def)

theorem impossible_resize_rejected_witness:
  "X \<lparr> X = 79, Y = 25 \<rparr> < viewport_Width console_80x25 \<and>
   X \<lparr> X = 32767, Y = 25 \<rparr> = SHORT_MAX \<and>
   SetConsoleScreenBufferSizeImpl plain_env console_80x25 \<lparr> X = 79, Y = 25 \<rparr>
     = (E_INVALIDARG, console_80x25) \<and>
   SetConsoleScreenBufferSizeImpl plain_env console_80x25 \<lparr> X = 32767, Y = 25 \<rparr>
     = (E_INVALIDARG, console_80x25)"
  using impossible_resize_rejected [of "\<lparr> X = 79, Y = 25 \<rparr>" console_80x25 plain_env]
    impossible_resize_rejected [of "\<lparr> X = 32767, Y = 25 \<rparr>" console_80x25 plain_env]
  by (simp add: console_80x25_def viewport_Width_def viewport_Height_def SHORT_MAX_def)

text \<open>A possible size is passed on to \<^verbatim>\<open>ResizeScreenBuffer\<close>.\<close>

lemma SetConsoleScreenBufferSizeImpl_possible:
  "SetConsoleScreenBufferSizeImpl plain_env console_80x25 \<lparr> X = 100, Y = 30 \<rparr> =
     (S_OK, console_80x25\<lparr> bufferSize := \<lparr> X = 100, Y = 30 \<rparr> \<rparr>)"
  by (simp add: SetConsoleScreenBufferSizeImpl_def plain_env_def console_80x25_def
      viewport_Width_def viewport_Height_def SHORT_MAX_def NT_SUCCESS_def)

text \<open>
  Claim C9: a reverse line feed with the cursor on the top row of the viewport (or
  above it), while margins are set and the row of the cursor lies outside them,
  returns \<^verbatim>\<open>STATUS_SUCCESS\<close> and leaves the console as it was: nothing is scrolled
  and the cursor stays.
\<close>

theorem ReverseLineFeed_outside_margins:
  assumes "Y (cursorPosition c) \<le> Top (viewport c)"
    and "scrollMargins c = Some (mtop, mbottom)"
    and "Y (cursorPosition c) < mtop \<or> mbottom < Y (cursorPosition c)"
  shows "AreMarginsSet c \<and> \<not> IsCursorInMargins c (cursorPosition c) \<and>
         DoSrvPrivateReverseLineFeed env c = (STATUS_SUCCESS, c)"
  using assms
  by (auto simp: DoSrvPrivateReverseLineFeed_def IsCursorInMargins_def AreMarginsSet_def Let_def)

theorem ReverseLineFeed_outside_margins_witness:
  "Y (cursorPosition (console_80x25\<lparr> scrollMargins := Some (5, 10) \<rparr>))
     \<le> Top (viewport (console_80x25\<lparr> scrollMargins := Some (5, 10) \<rparr>)) \<and>
   Y (cursorPosition (console_80x25\<lparr> scrollMargins := Some (5, 10) \<rparr>)) < 5 \<and>
   DoSrvPrivateReverseLineFeed plain_env (console_80x25\<lparr> scrollMargins := Some (5, 10) \<rparr>) =
     (STATUS_SUCCESS, console_80x25\<lparr> scrollMargins := Some (5, 10) \<rparr>)"
  using ReverseLineFeed_outside_margins
    [of "console_80x25\<lparr> scrollMargins := Some (5, 10) \<rparr>" 5 10 plain_env]
  by (simp add: console_80x25_def)

text \<open>Inside the margins, the same feed scrolls: the region goes to \<^verbatim>\<open>ScrollRegion\<close>.\<close>

lemma ReverseLineFeed_inside_margins:
  "DoSrvPrivateReverseLineFeed
     (plain_env\<lparr> ScrollRegion := (\<lambda>r cl d f c. (0, c\<lparr> cursorPosition := d \<rparr>)) \<rparr>)
     (console_80x25\<lparr> scrollMargins := Some (0, 10) \<rparr>) =
   (0, console_80x25\<lparr> scrollMargins := Some (0, 10), cursorPosition := \<lparr> X = 0, Y = 1 \<rparr> \<rparr>)"
  by (simp add: DoSrvPrivateReverseLineFeed_def DoSrvPrivateScrollRegion_def plain_env_def
      console_80x25_def IsCursorInMargins_def AreMarginsSet_def Let_def to_short_def)

section \<open>Properties of the selection\<close>

lemma or_not_empty:
  "(w OR CONSOLE_SELECTION_NOT_EMPTY) AND CONSOLE_SELECTION_NOT_EMPTY \<noteq> (0 :: 32 word)"
proof -
  have "(w OR CONSOLE_SELECTION_NOT_EMPTY) AND CONSOLE_SELECTION_NOT_EMPTY
          = CONSOLE_SELECTION_NOT_EMPTY"
    by (simp add: bit.conj_disj_distrib2)
  then show ?thesis by (simp add: CONSOLE_SELECTION_NOT_EMPTY_def)
qed

text \<open>The selection becomes visible only in the selecting state with an area selected.\<close>

lemma ShowSelection_needs_active:
  "fSelectionVisible (snd (ShowSelection s)) \<Longrightarrow> \<not> fSelectionVisible s \<Longrightarrow>
     IsInSelectingState s \<and> IsAreaSelected s"
  by (auto simp: ShowSelection_def SetSelectionVisibility_def split: if_splits)

text \<open>
  Whatever the rectangle was, the two comparisons with the anchor set all four sides.
\<close>

lemma span_rect:
  "(let sr1 = (if X p \<le> X a then sr0\<lparr> Left := X p, Right := X a \<rparr>
               else if X p > X a then sr0\<lparr> Right := X p, Left := X a \<rparr> else sr0)
    in (if Y p \<le> Y a then sr1\<lparr> Top := Y p, Bottom := Y a \<rparr>
        else if Y p > Y a then sr1\<lparr> Bottom := Y p, Top := Y a \<rparr> else sr1))
   = \<lparr> Left = min (X p) (X a), Top = min (Y p) (Y a),
       Right = max (X p) (X a), Bottom = max (Y p) (Y a) \<rparr>"
  by (cases sr0) (auto simp: Let_def min_def max_def)

text \<open>The selection after \<^verbatim>\<open>ExtendSelection\<close>, in closed form.\<close>

lemma ExtendSelection_state:
  "snd (ExtendSelection b s pos) =
     (case Clamp b pos of
        None \<Rightarrow> s\<lparr> allowMouseDragSelection := True \<rparr>
      | Some p \<Rightarrow>
          if \<not> IsAreaSelected s \<and> IsMouseInitiatedSelection s
          then s\<lparr> allowMouseDragSelection := True \<rparr>
          else if IsAreaSelected s
          then s\<lparr> allowMouseDragSelection := True,
                  srSelectionRect :=
                    \<lparr> Left = min (X p) (X (coordSelectionAnchor s)),
                      Top = min (Y p) (Y (coordSelectionAnchor s)),
                      Right = max (X p) (X (coordSelectionAnchor s)),
                      Bottom = max (Y p) (Y (coordSelectionAnchor s)) \<rparr> \<rparr>
          else s\<lparr> allowMouseDragSelection := True,
                  dwSelectionFlags := dwSelectionFlags s OR CONSOLE_SELECTION_NOT_EMPTY,
                  fSelectionVisible := (consoleSelecting s \<or> fSelectionVisible s),
                  srSelectionRect :=
                    \<lparr> Left = min (X p) (X (coordSelectionAnchor s)),
                      Top = min (Y p) (Y (coordSelectionAnchor s)),
                      Right = max (X p) (X (coordSelectionAnchor s)),
                      Bottom = max (Y p) (Y (coordSelectionAnchor s)) \<rparr> \<rparr>)"
proof (cases "Clamp b pos")
  case None
  then show ?thesis by (simp add: ExtendSelection_def)
next
  case (Some p)
  show ?thesis
  proof (cases "IsAreaSelected s")
    case True
    then have a: "IsAreaSelected (s\<lparr> allowMouseDragSelection := True \<rparr>)"
      by (simp add: IsAreaSelected_def)
    show ?thesis
      unfolding ExtendSelection_def
      by (simp add: Some True a span_rect [unfolded Let_def] Let_def)
  next
    case False
    then have a: "\<not> IsAreaSelected (s\<lparr> allowMouseDragSelection := True \<rparr>)"
      by (simp add: IsAreaSelected_def)
    have m: "IsMouseInitiatedSelection (s\<lparr> allowMouseDragSelection := True \<rparr>)
               = IsMouseInitiatedSelection s"
      by (simp add: IsMouseInitiatedSelection_def)
    show ?thesis
    proof (cases "IsMouseInitiatedSelection s")
      case True
      with False a m Some show ?thesis by (simp add: ExtendSelection_def)
    next
      case nm: False
      show ?thesis
        unfolding ExtendSelection_def
        using or_not_empty [of "dwSelectionFlags s"]
        by (auto simp: Some False a m nm span_rect [unfolded Let_def] Let_def ShowSelection_def
            SetSelectionVisibility_def IsInSelectingState_def IsAreaSelected_def
            split: prod.splits)
    qed
  qed
qed

text \<open>The anchor stays a corner of an ordered rectangle.\<close>

lemma InitializeMouseSelection_anchored:
  "anchored (snd (InitializeMouseSelection s pos alt))"
  by (simp add: InitializeMouseSelection_def anchored_def)

lemma ExtendSelection_anchored:
  "anchored s \<Longrightarrow> anchored (snd (ExtendSelection b s pos))"
  by (auto simp: ExtendSelection_state anchored_def min_def max_def split: option.splits)

text \<open>
  Claim C5: calling \<^verbatim>\<open>ExtendSelection\<close> a second time with the same position leaves
  the selection, its rectangle included, as the first call left it. This holds for
  every position, in or out of bounds, and every state of the selection.
\<close>

theorem ExtendSelection_idempotent:
  "snd (ExtendSelection b (snd (ExtendSelection b s pos)) pos) = snd (ExtendSelection b s pos)"
proof (cases "Clamp b pos")
  case None
  then show ?thesis by (simp add: ExtendSelection_state)
next
  case (Some p)
  show ?thesis
  proof (cases "IsAreaSelected s")
    case True
    then show ?thesis
      by (simp add: ExtendSelection_state Some IsAreaSelected_def IsMouseInitiatedSelection_def)
  next
    case False
    show ?thesis
    proof (cases "IsMouseInitiatedSelection s")
      case True
      with False show ?thesis
        by (simp add: ExtendSelection_state Some IsAreaSelected_def
            IsMouseInitiatedSelection_def)
    next
      case nm: False
      with False show ?thesis
        using or_not_empty [of "dwSelectionFlags s"]
        by (simp add: ExtendSelection_state Some IsAreaSelected_def
            IsMouseInitiatedSelection_def)
    qed
  qed
qed

theorem ExtendSelection_idempotent_witness:
  "srSelectionRect (snd (ExtendSelection \<lparr> Left = 0, Top = 0, Right = 79, Bottom = 24 \<rparr>
       (snd (ExtendSelection \<lparr> Left = 0, Top = 0, Right = 79, Bottom = 24 \<rparr>
          (snd (InitializeMouseSelection Selection_init \<lparr> X = 10, Y = 5 \<rparr> False))
          \<lparr> X = 4, Y = 7 \<rparr>))
       \<lparr> X = 4, Y = 7 \<rparr>))
   = \<lparr> Left = 4, Top = 5, Right = 10, Bottom = 7 \<rparr>"
proof -
  have "srSelectionRect (snd (ExtendSelection \<lparr> Left = 0, Top = 0, Right = 79, Bottom = 24 \<rparr>
          (snd (InitializeMouseSelection Selection_init \<lparr> X = 10, Y = 5 \<rparr> False))
          \<lparr> X = 4, Y = 7 \<rparr>))
      = \<lparr> Left = 4, Top = 5, Right = 10, Bottom = 7 \<rparr>"
    by (simp add: ExtendSelection_def InitializeMouseSelection_def Selection_init_def Clamp_def
        IsAreaSelected_def IsMouseInitiatedSelection_def CONSOLE_MOUSE_SELECTION_def
        CONSOLE_SELECTION_NOT_EMPTY_def Let_def)
  then show ?thesis
    by (simp only: ExtendSelection_idempotent)
qed

text \<open>The rows and columns of the rectangles of a span.\<close>

lemma GetTextRects_nonempty: "GetTextRects rm a e blk \<noteq> []"
  by (auto simp: GetTextRects_def Let_def split: if_splits)

lemma GetTextRects_rows:
  "map Top (GetTextRects rm a e blk) =
     (if Y a < Y e \<or> (Y a = Y e \<and> X a \<le> X e) then [Y a .. Y e] else [Y e .. Y a])"
  by (simp add: GetTextRects_def Let_def comp_def if_distrib [of Top] cong: if_cong)

lemma GetTextRects_single_rows:
  "r \<in> set (GetTextRects rm a e blk) \<Longrightarrow> Bottom r = Top r"
  by (auto simp: GetTextRects_def Let_def split: if_splits)

lemma GetTextRects_block:
  "r \<in> set (GetTextRects rm a e True) \<Longrightarrow>
     Left r = min (X a) (X e) \<and> Right r = max (X a) (X e)"
  by (auto simp: GetTextRects_def Let_def split: if_splits)

lemma anchored_rows:
  assumes "anchored s"
  shows "(if Y (coordSelectionAnchor s) < Y (endSelectionAnchor s) \<or>
             (Y (coordSelectionAnchor s) = Y (endSelectionAnchor s) \<and>
              X (coordSelectionAnchor s) \<le> X (endSelectionAnchor s))
          then [Y (coordSelectionAnchor s) .. Y (endSelectionAnchor s)]
          else [Y (endSelectionAnchor s) .. Y (coordSelectionAnchor s)])
         = [Top (srSelectionRect s) .. Bottom (srSelectionRect s)]"
  using assms by (auto simp: anchored_def endSelectionAnchor_def)

lemma anchored_columns:
  assumes "anchored s"
  shows "min (X (coordSelectionAnchor s)) (X (endSelectionAnchor s)) = Left (srSelectionRect s)"
    and "max (X (coordSelectionAnchor s)) (X (endSelectionAnchor s)) = Right (srSelectionRect s)"
  using assms by (auto simp: anchored_def endSelectionAnchor_def)

text \<open>
  Claim C4, as stated: whenever the selection is active, that is in the selecting
  state with an area selected, \<^verbatim>\<open>GetSelectionRects\<close> returns a non-empty list.
  Right after \<^verbatim>\<open>InitializeMouseSelection\<close> on a fresh selection the selection is
  active, but it is not yet shown, and the list is empty.
\<close>

theorem active_selection_without_rects:
  "IsInSelectingState (snd (InitializeMouseSelection Selection_init \<lparr> X = 10, Y = 5 \<rparr> False)) \<and>
   IsAreaSelected (snd (InitializeMouseSelection Selection_init \<lparr> X = 10, Y = 5 \<rparr> False)) \<and>
   GetSelectionRects 79 (snd (InitializeMouseSelection Selection_init \<lparr> X = 10, Y = 5 \<rparr> False))
     = []"
  by (simp add: InitializeMouseSelection_def Selection_init_def IsInSelectingState_def
      IsAreaSelected_def GetSelectionRects_def CONSOLE_MOUSE_SELECTION_def
      CONSOLE_SELECTION_NOT_EMPTY_def)

text \<open>
  Claim C4, amended: whenever the selection is shown (\<^verbatim>\<open>_fSelectionVisible\<close>, which
  \<^verbatim>\<open>ShowSelection\<close> sets only in the selecting state with an area selected),
  \<^verbatim>\<open>GetSelectionRects\<close> returns a non-empty list of single-row rectangles: the
  rectangles of the span from the anchor to the opposite corner in the current line or
  block mode. When the anchor is a corner of the selection rectangle, as
  \<^verbatim>\<open>InitializeMouseSelection\<close> and \<^verbatim>\<open>ExtendSelection\<close> leave it, there is one
  rectangle for each row of the selection rectangle from top to bottom, and in block
  mode each has the columns of the selection rectangle. While the selection is not
  shown the list is empty, active or not.
\<close>

theorem GetSelectionRects_shown:
  "(\<not> fSelectionVisible s \<longrightarrow> GetSelectionRects rm s = []) \<and>
   (fSelectionVisible s \<longrightarrow>
      GetSelectionRects rm s \<noteq> [] \<and>
      GetSelectionRects rm s =
        GetTextRects rm (coordSelectionAnchor s) (endSelectionAnchor s) (\<not> IsLineSelection s) \<and>
      (\<forall>r \<in> set (GetSelectionRects rm s). Bottom r = Top r)) \<and>
   (fSelectionVisible s \<and> anchored s \<longrightarrow>
      map Top (GetSelectionRects rm s) = [Top (srSelectionRect s) .. Bottom (srSelectionRect s)] \<and>
      (\<not> IsLineSelection s \<longrightarrow>
         (\<forall>r \<in> set (GetSelectionRects rm s).
             Left r = Left (srSelectionRect s) \<and> Right r = Right (srSelectionRect s))))"
proof -
  have hidden: "\<not> fSelectionVisible s \<Longrightarrow> GetSelectionRects rm s = []"
    by (simp add: GetSelectionRects_def)
  have shown: "GetSelectionRects rm s =
        GetTextRects rm (coordSelectionAnchor s) (endSelectionAnchor s) (\<not> IsLineSelection s)"
    if "fSelectionVisible s"
    using that by (simp add: GetSelectionRects_def)
  have rows: "map Top (GetSelectionRects rm s)
        = [Top (srSelectionRect s) .. Bottom (srSelectionRect s)]"
    if "fSelectionVisible s" "anchored s"
    by (simp only: shown [OF that(1)] GetTextRects_rows anchored_rows [OF that(2)])
  have cols: "Left r = Left (srSelectionRect s) \<and> Right r = Right (srSelectionRect s)"
    if "fSelectionVisible s" "anchored s" "\<not> IsLineSelection s"
      "r \<in> set (GetSelectionRects rm s)" for r
  proof -
    from that(4)
    have "r \<in> set (GetTextRects rm (coordSelectionAnchor s) (endSelectionAnchor s) True)"
      by (simp add: shown [OF that(1)] that(3))
    from GetTextRects_block [OF this] show ?thesis
      by (simp only: anchored_columns [OF that(2)])
  qed
  have single: "Bottom r = Top r"
    if "fSelectionVisible s" "r \<in> set (GetSelectionRects rm s)" for r
    using that(2) by (simp add: shown [OF that(1)] GetTextRects_single_rows)
  show ?thesis
    using hidden shown rows cols single GetTextRects_nonempty by auto
qed

theorem GetSelectionRects_shown_witness:
  "fSelectionVisible (snd (ExtendSelection \<lparr> Left = 0, Top = 0, Right = 79, Bottom = 24 \<rparr>
        (snd (ShowSelection (snd (InitializeMouseSelection Selection_init
                                    \<lparr> X = 10, Y = 5 \<rparr> False))))
        \<lparr> X = 20, Y = 5 \<rparr>)) \<and>
   anchored (snd (ExtendSelection \<lparr> Left = 0, Top = 0, Right = 79, Bottom = 24 \<rparr>
        (snd (ShowSelection (snd (InitializeMouseSelection Selection_init
                                    \<lparr> X = 10, Y = 5 \<rparr> False))))
        \<lparr> X = 20, Y = 5 \<rparr>)) \<and>
   GetSelectionRects 79
     (snd (ExtendSelection \<lparr> Left = 0, Top = 0, Right = 79, Bottom = 24 \<rparr>
        (snd (ShowSelection (snd (InitializeMouseSelection Selection_init
                                    \<lparr> X = 10, Y = 5 \<rparr> False))))
        \<lparr> X = 20, Y = 5 \<rparr>))
   = [\<lparr> Left = 10, Top = 5, Right = 20, Bottom = 5 \<rparr>]"
  using GetSelectionRects_shown [of
      "snd (ExtendSelection \<lparr> Left = 0, Top = 0, Right = 79, Bottom = 24 \<rparr>
        (snd (ShowSelection (snd (InitializeMouseSelection Selection_init
                                    \<lparr> X = 10, Y = 5 \<rparr> False))))
        \<lparr> X = 20, Y = 5 \<rparr>)" 79]
  by (simp add: InitializeMouseSelection_def Selection_init_def IsInSelectingState_def
      IsAreaSelected_def GetSelectionRects_def CONSOLE_MOUSE_SELECTION_def
      CONSOLE_SELECTION_NOT_EMPTY_def ShowSelection_def SetSelectionVisibility_def
      ExtendSelection_def Clamp_def Let_def IsMouseInitiatedSelection_def GetTextRects_def
      IsLineSelection_def endSelectionAnchor_def anchored_def)

text \<open>
  Without \<^verbatim>\<open>ShowSelection\<close> between them, \<^verbatim>\<open>InitializeMouseSelection\<close> and
  \<^verbatim>\<open>ExtendSelection\<close> leave a selection with an area of eleven columns and no
  rectangles to draw.
\<close>

lemma extended_but_not_shown:
  "srSelectionRect
     (snd (ExtendSelection \<lparr> Left = 0, Top = 0, Right = 79, Bottom = 24 \<rparr>
        (snd (InitializeMouseSelection Selection_init \<lparr> X = 10, Y = 5 \<rparr> False))
        \<lparr> X = 20, Y = 5 \<rparr>))
     = \<lparr> Left = 10, Top = 5, Right = 20, Bottom = 5 \<rparr> \<and>
   GetSelectionRects 79
     (snd (ExtendSelection \<lparr> Left = 0, Top = 0, Right = 79, Bottom = 24 \<rparr>
        (snd (InitializeMouseSelection Selection_init \<lparr> X = 10, Y = 5 \<rparr> False))
        \<lparr> X = 20, Y = 5 \<rparr>))
     = []"
  by (simp add: InitializeMouseSelection_def Selection_init_def IsAreaSelected_def
      GetSelectionRects_def CONSOLE_MOUSE_SELECTION_def CONSOLE_SELECTION_NOT_EMPTY_def
      ExtendSelection_def Clamp_def Let_def IsMouseInitiatedSelection_def)

text \<open>
  A line selection over three rows of an 80-column buffer: a partial first row, a full
  middle row and a partial last row.
\<close>

lemma GetTextRects_three_rows:
  "GetTextRects 79 \<lparr> X = 10, Y = 5 \<rparr> \<lparr> X = 3, Y = 7 \<rparr> False =
     [\<lparr> Left = 10, Top = 5, Right = 79, Bottom = 5 \<rparr>,
      \<lparr> Left = 0, Top = 6, Right = 79, Bottom = 6 \<rparr>,
      \<lparr> Left = 0, Top = 7, Right = 3, Bottom = 7 \<rparr>]"
  by (simp add: GetTextRects_def Let_def upto.simps)

section \<open>Properties of the text colours\<close>

text \<open>A colour taken apart by the constructor and put together again: its low 24 bits.\<close>

lemma RGB_roundtrip: "RGB (GetRValue c) (GetGValue c) (GetBValue c) = take_bit 24 c"
  unfolding RGB_def GetRValue_def GetGValue_def GetBValue_def
proof (rule bit_word_eqI)
  fix n
  assume "n < LENGTH(32)"
  consider "n < 8" | "8 \<le> n" "n < 16" | "16 \<le> n" "n < 24" | "24 \<le> n"
    by linarith
  then show "bit (ucast (ucast c :: 8 word) OR
                  push_bit 8 (ucast (ucast (drop_bit 8 (ucast c :: 16 word)) :: 8 word)) OR
                  push_bit 16 (ucast (ucast (drop_bit 16 c) :: 8 word)) :: 32 word) n
             = bit (take_bit 24 c) n"
  proof cases
    case 1
    then show ?thesis by (auto simp: bit_simps)
  next
    case 2
    then show ?thesis by (auto simp: bit_simps)
  next
    case 3
    then show ?thesis by (auto simp: bit_simps)
  next
    case 4
    then show ?thesis by (auto simp: bit_simps)
  qed
qed

text \<open>
  Claim C6: for every colour table, default colour and brighten flag, \<^verbatim>\<open>GetColor\<close>
  resolves by tag. A Default colour gives the default colour supplied. An Indexed16
  or Indexed256 colour gives the entry of the table at its index, with the fixed
  offset applied only when brightening is asked for and the colour is a legacy
  16-colour index from 0 to 7. An RGB colour gives its stored value: the red, green
  and blue bytes it was built from. And after \<^verbatim>\<open>SetColorTableEntry(1, 0x0000FF)\<close>,
  the colour \<^verbatim>\<open>TextColor(1, false)\<close> resolves to \<^verbatim>\<open>0x0000FF\<close>.
\<close>

theorem GetColor_by_tag:
  "GetColor offset TextColor_default table defaultColor brighten = defaultColor \<and>
   GetColor offset (TextColor_index i is256) table defaultColor brighten =
     (if brighten \<and> \<not> is256 \<and> i \<le> 7 then offset (table (unat i)) else table (unat i)) \<and>
   GetColor offset (TextColor_rgb rgb) table defaultColor brighten = take_bit 24 rgb \<and>
   GetColor offset (TextColor_index 1 False) (SetColorTableEntry 1 0x0000FF table)
     defaultColor False = 0x0000FF"
  by (simp add: GetColor_def TextColor_default_def TextColor_index_def TextColor_rgb_def
      CanBeBrightened_def GetIndex_def GetRGB_def RGB_roundtrip SetColorTableEntry_def)

theorem GetColor_by_tag_witness:
  "GetColor (\<lambda>c. c OR 0x808080) (TextColor_index 3 False)
       (SetColorTableEntry 3 0x000080 (\<lambda>i. 0)) 0xFFFFFF True = 0x808080 \<and>
   GetColor (\<lambda>c. c OR 0x808080) (TextColor_index 9 False)
       (SetColorTableEntry 9 0x0000FF (\<lambda>i. 0)) 0xFFFFFF True = 0x0000FF \<and>
   GetColor (\<lambda>c. c OR 0x808080) (TextColor_rgb 0x123456)
       (SetColorTableEntry 3 0x000080 (\<lambda>i. 0)) 0xFFFFFF True = 0x123456"
  using GetColor_by_tag [of "\<lambda>c. c OR 0x808080" "SetColorTableEntry 3 0x000080 (\<lambda>i. 0)"
        "0xFFFFFF" True 3 False "0x123456"]
    GetColor_by_tag [of "\<lambda>c. c OR 0x808080" "SetColorTableEntry 9 0x0000FF (\<lambda>i. 0)"
        "0xFFFFFF" True 9 False "0x123456"]
  by (simp add: SetColorTableEntry_def)

end
